theory Spec2Isabelle
  imports Main "HOL-Library.Sublist"
begin

section \<open>JavaScript values and messages\<close>

text \<open>
  Argument arrays of the processor hold strings and, after the niceness rewrite, a number.
  An \<open>Error\<close> object is represented by its message; a value that is passed in an error
  position without being an \<open>Error\<close> object (a plain string) is kept apart.
\<close>

datatype jsval = Str string | Num int

datatype errval = Error string | ErrStr string

definition digit_char :: "nat \<Rightarrow> char" where
  "digit_char n = ''0123456789'' ! n"

fun string_of_nat :: "nat \<Rightarrow> string" where
  "string_of_nat n =
     (if n < 10 then [digit_char n] else string_of_nat (n div 10) @ [digit_char (n mod 10)])"

declare string_of_nat.simps [simp del]

definition string_of_int :: "int \<Rightarrow> string" where
  "string_of_int i =
     (if i < 0 then CHR ''-'' # string_of_nat (nat (- i)) else string_of_nat (nat i))"

fun js_to_string :: "jsval \<Rightarrow> string" where
  "js_to_string (Str s) = s"
| "js_to_string (Num n) = string_of_int n"

text \<open>\<open>Array.prototype.join\<close>: the elements as strings, the separator between them.\<close>

fun js_join :: "string \<Rightarrow> jsval list \<Rightarrow> string" where
  "js_join sep [] = []"
| "js_join sep [x] = js_to_string x"
| "js_join sep (x # y # ys) = js_to_string x @ sep @ js_join sep (y # ys)"

section \<open>The environment\<close>

text \<open>
  What the code reads from outside: \<open>process.env\<close>, \<open>fs.exists\<close>, the search on the
  system path (\<open>utils.which\<close>, which passes an \<open>Error\<close>, given by its message, or the
  path found, the empty string when there is none), \<open>utils.isWindows\<close>, and
  \<open>path.join(path.dirname(p), name)\<close>. The functions of the module \<open>utils\<close> are
  parameters: the module is used by the processor but is not among its source files.
\<close>

record sysenv =
  env_var :: "string \<Rightarrow> string option"
  fs_exists :: "string \<Rightarrow> bool"
  which :: "string \<Rightarrow> string + string"
  isWindows :: bool
  sibling :: "string \<Rightarrow> string \<Rightarrow> string"

section \<open>The command object\<close>

datatype log_entry = Warn string | Info string | Debug string

text \<open>A process started through \<open>child_process.spawn\<close>: executable and argument list.\<close>

record spawn_req =
  sp_command :: string
  sp_args :: "jsval list"

text \<open>
  The fields of the command object that \<open>renice\<close> and \<open>kill\<close> read and write:
  \<open>this.options.niceness\<close>, \<open>this.mencoderProc\<close> (the pid of the running process, if
  any), \<open>this.logger\<close> with what it has recorded (\<open>None\<close> when the command has no
  logger), the processes spawned and the signals sent so far.
\<close>

record command_ctl =
  options_niceness :: int
  mencoderProc :: "nat option"
  logger :: "log_entry list option"
  spawned :: "spawn_req list"
  signals :: "(nat \<times> string) list"

text \<open>
  The constructor \<open>MencoderCommand\<close> stores \<open>options.niceness || options.priority || 0\<close>
  and sets neither \<open>mencoderProc\<close> nor \<open>logger\<close>: a command it has built has no logger
  until a caller attaches one.
\<close>

definition MencoderCommand :: "int option \<Rightarrow> int option \<Rightarrow> command_ctl" where
  "MencoderCommand niceness priority =
     \<lparr>options_niceness =
        (case niceness of
           Some n \<Rightarrow> if n \<noteq> 0 then n
                     else (case priority of Some p \<Rightarrow> p | None \<Rightarrow> 0)
         | None \<Rightarrow> (case priority of Some p \<Rightarrow> p | None \<Rightarrow> 0)),
      mencoderProc = None, logger = None, spawned = [], signals = []\<rparr>"

text \<open>
  A call of a method of \<open>this.logger\<close>: on a command without a logger the property read
  yields \<open>undefined\<close> and the call throws a \<open>TypeError\<close>.
\<close>

definition log_to :: "log_entry \<Rightarrow> command_ctl \<Rightarrow> errval + command_ctl" where
  "log_to entry c =
     (case logger c of
        None \<Rightarrow> Inl (Error ''TypeError'')
      | Some l \<Rightarrow> Inr (c\<lparr>logger := Some (l @ [entry])\<rparr>))"

subsection \<open>renice\<close>

text \<open>
  \<open>niceness = niceness || 0\<close>: an omitted argument (\<open>None\<close>) counts as 0. The warning is
  issued on the value before clamping, and an exception thrown there leaves the method
  before anything is stored; \<open>Math.min(20, Math.max(-20, niceness))\<close> clamps the value.
  With a running process, \<open>renice <niceness> -p <pid>\<close> is spawned.
\<close>

definition renice :: "sysenv \<Rightarrow> int option \<Rightarrow> command_ctl \<Rightarrow> errval + command_ctl" where
  "renice env arg c =
     (if \<not> isWindows env then
        let niceness = (case arg of None \<Rightarrow> 0 | Some n \<Rightarrow> n)
        in case (if niceness < - 20 \<or> niceness > 20
                 then log_to (Warn (''Invalid niceness value: '' @ string_of_int niceness @
                                    '', must be between -20 and 20'')) c
                 else Inr c) of
             Inl e \<Rightarrow> Inl e
           | Inr c1 \<Rightarrow>
               let niceness' = min 20 (max (- 20) niceness);
                   c2 = c1\<lparr>options_niceness := niceness'\<rparr>
               in Inr (case mencoderProc c2 of
                         None \<Rightarrow> c2
                       | Some pid \<Rightarrow>
                           c2\<lparr>spawned := spawned c2 @
                                [\<lparr>sp_command = ''renice'',
                                  sp_args = [Num niceness', Str ''-p'', Num (int pid)]\<rparr>]\<rparr>)
      else Inr c)"

text \<open>
  The handlers on the \<open>renice\<close> process only log, through the logger read when \<open>renice\<close>
  was called.
\<close>

definition renice_on_error :: "nat \<Rightarrow> string \<Rightarrow> command_ctl \<Rightarrow> errval + command_ctl" where
  "renice_on_error pid msg c =
     log_to (Warn (''could not renice process '' @ string_of_nat pid @ '': '' @ msg)) c"

definition renice_on_exit ::
  "nat \<Rightarrow> int \<Rightarrow> int option \<Rightarrow> string option \<Rightarrow> command_ctl \<Rightarrow> errval + command_ctl" where
  "renice_on_exit pid niceness code signal c =
     (if signal \<noteq> None \<and> signal \<noteq> Some []
      then log_to (Warn (''could not renice process '' @ string_of_nat pid @
                         '': renice was killed by signal '' @ the signal)) c
      else if code \<noteq> None \<and> code \<noteq> Some 0
      then log_to (Warn (''could not renice process '' @ string_of_nat pid @
                         '': renice exited with '' @ string_of_int (the code))) c
      else log_to (Info (''successfully reniced process '' @ string_of_nat pid @ '' to '' @
                         string_of_int niceness @ '' niceness'')) c)"

subsection \<open>kill\<close>

definition kill :: "string option \<Rightarrow> command_ctl \<Rightarrow> errval + command_ctl" where
  "kill signal c =
     (case mencoderProc c of
        None \<Rightarrow> log_to (Warn ''No running mencoder process, cannot send signal'') c
      | Some pid \<Rightarrow>
          Inr (c\<lparr>signals := signals c @
                 [(pid, (case signal of None \<Rightarrow> ''SIGKILL''
                         | Some s \<Rightarrow> if s = [] then ''SIGKILL'' else s))]\<rparr>))"

section \<open>Binary paths and their cache\<close>

text \<open>
  The module-level \<open>cache\<close> object: a key that is absent is \<open>None\<close>. The asynchronous
  waterfalls are written in direct style, each step feeding the next; a step that passes an
  error ends the waterfall with that error and nothing is stored.
\<close>

record path_cache =
  mencoderPath :: "string option"
  ffprobePath :: "string option"
  flvtoolPath :: "string option"

definition setMencoderPath :: "string \<Rightarrow> path_cache \<Rightarrow> path_cache" where
  "setMencoderPath p c = c\<lparr>mencoderPath := Some p\<rparr>"

definition setFfprobePath :: "string \<Rightarrow> path_cache \<Rightarrow> path_cache" where
  "setFfprobePath p c = c\<lparr>ffprobePath := Some p\<rparr>"

definition setFlvtoolPath :: "string \<Rightarrow> path_cache \<Rightarrow> path_cache" where
  "setFlvtoolPath p c = c\<lparr>flvtoolPath := Some p\<rparr>"

definition forgetPaths :: "path_cache \<Rightarrow> path_cache" where
  "forgetPaths c = c\<lparr>mencoderPath := None, ffprobePath := None, flvtoolPath := None\<rparr>"

text \<open>
  The first step of each waterfall: the environment variable, when it is set to a
  non-empty value that names an existing file, and the empty string otherwise.
\<close>

definition env_path :: "sysenv \<Rightarrow> string \<Rightarrow> string" where
  "env_path env name =
     (case env_var env name of
        None \<Rightarrow> []
      | Some p \<Rightarrow> if p = [] then [] else if fs_exists env p then p else [])"

text \<open>A later step: keep what was found, search the path otherwise.\<close>

definition or_which :: "sysenv \<Rightarrow> string \<Rightarrow> string \<Rightarrow> errval + string" where
  "or_which env found name =
     (if found \<noteq> [] then Inr found
      else case which env name of Inl msg \<Rightarrow> Inl (Error msg) | Inr p \<Rightarrow> Inr p)"

definition getMencoderPath :: "sysenv \<Rightarrow> path_cache \<Rightarrow> (errval + string) \<times> path_cache" where
  "getMencoderPath env c =
     (case mencoderPath c of
        Some p \<Rightarrow> (Inr p, c)
      | None \<Rightarrow>
          (case or_which env (env_path env ''MENCODER_PATH'') ''mencoder'' of
             Inl err \<Rightarrow> (Inl err, c)
           | Inr mencoder \<Rightarrow> (Inr mencoder, c\<lparr>mencoderPath := Some mencoder\<rparr>)))"

definition getFfprobePath :: "sysenv \<Rightarrow> path_cache \<Rightarrow> (errval + string) \<times> path_cache" where
  "getFfprobePath env c =
     (case ffprobePath c of
        Some p \<Rightarrow> (Inr p, c)
      | None \<Rightarrow>
          (case or_which env (env_path env ''FFPROBE_PATH'') ''ffprobe'' of
             Inl err \<Rightarrow> (Inl err, c)
           | Inr ffprobe \<Rightarrow>
               if ffprobe \<noteq> [] then (Inr ffprobe, c\<lparr>ffprobePath := Some ffprobe\<rparr>)
               else
                 (case getMencoderPath env c of
                    (Inl err, c1) \<Rightarrow> (Inl err, c1)
                  | (Inr mencoder, c1) \<Rightarrow>
                      if mencoder \<noteq> [] then
                        let name = (if isWindows env then ''ffprobe.exe'' else ''ffprobe'');
                            ffprobe' = sibling env mencoder name;
                            found = (if fs_exists env ffprobe' then ffprobe' else [])
                        in (Inr found, c1\<lparr>ffprobePath := Some found\<rparr>)
                      else (Inr [], c1\<lparr>ffprobePath := Some []\<rparr>))))"

definition getFlvtoolPath :: "sysenv \<Rightarrow> path_cache \<Rightarrow> (errval + string) \<times> path_cache" where
  "getFlvtoolPath env c =
     (case flvtoolPath c of
        Some p \<Rightarrow> (Inr p, c)
      | None \<Rightarrow>
          (let flvmeta = env_path env ''FLVMETA_PATH'';
               flvtool = (if flvmeta \<noteq> [] then flvmeta else env_path env ''FLVTOOL2_PATH'')
           in case or_which env flvtool ''flvmeta'' of
                Inl err \<Rightarrow> (Inl err, c)
              | Inr flvtool1 \<Rightarrow>
                  (case or_which env flvtool1 ''flvtool2'' of
                     Inl err \<Rightarrow> (Inl err, c)
                   | Inr flvtool2 \<Rightarrow> (Inr flvtool2, c\<lparr>flvtoolPath := Some flvtool2\<rparr>))))"

section \<open>Arrays\<close>

text \<open>
  JavaScript arrays are objects: two variables may name the same array, and a method such
  as \<open>unshift\<close> changes it for every holder. The store lists the arrays allocated so
  far; a reference is a position in it. An array literal and \<open>concat\<close> allocate a new
  array and leave every existing one as it is.
\<close>

type_synonym ref = nat

type_synonym heap = "jsval list list"

definition new_array :: "jsval list \<Rightarrow> heap \<Rightarrow> ref \<times> heap" where
  "new_array xs h = (length h, h @ [xs])"

definition js_concat :: "ref \<Rightarrow> ref list \<Rightarrow> heap \<Rightarrow> ref \<times> heap" where
  "js_concat r rs h = new_array (h ! r @ concat (map (\<lambda>a. h ! a) rs)) h"

definition js_unshift :: "ref \<Rightarrow> jsval list \<Rightarrow> heap \<Rightarrow> heap" where
  "js_unshift r xs h = h[r := xs @ h ! r]"

section \<open>Inputs, outputs and the argument list\<close>

text \<open>
  An input's \<open>source\<close> is a string or a readable stream. An output's \<open>target\<close> key may be
  absent (\<open>None\<close>); when present it is a string or a writable stream. Each option holder
  (\<open>utils.args()\<close>) is represented by the array its \<open>get()\<close> returns; the array of
  \<open>sizeFilters\<close> holds the filter specifications as \<open>makeFilterStrings\<close> takes them.
\<close>

datatype source = SrcString string | SrcStream

datatype target = File string | Stream

record cmd_input =
  in_source :: source
  in_options :: ref

record cmd_output =
  out_target :: "target option"
  isFile :: bool
  flvmeta :: bool
  audio :: ref
  audioFilters :: ref
  video :: ref
  videoFilters :: ref
  sizeFilters :: ref
  out_options :: ref

record command =
  inputs :: "cmd_input list"
  outputs :: "cmd_output list"
  global :: ref
  complexFilters :: ref

text \<open>The reducer over the inputs: the input's options, then \<open>'mf://' + source\<close>.\<close>

definition source_string :: "source \<Rightarrow> string" where
  "source_string src = (case src of SrcString s \<Rightarrow> s | SrcStream \<Rightarrow> ''pipe:0'')"

definition input_args :: "ref \<Rightarrow> cmd_input \<Rightarrow> heap \<Rightarrow> ref \<times> heap" where
  "input_args args i h =
     (let (lit, h1) = new_array [Str (''mf://'' @ source_string (in_source i))] h
      in js_concat args [in_options i, lit] h1)"

fun reduce_inputs :: "cmd_input list \<Rightarrow> ref \<Rightarrow> heap \<Rightarrow> ref \<times> heap" where
  "reduce_inputs [] args h = (args, h)"
| "reduce_inputs (i # rest) args h =
     (case input_args args i h of (args', h') \<Rightarrow> reduce_inputs rest args' h')"

text \<open>
  \<open>!output.target\<close> holds for an absent target and for the empty string.
  \<open>utils.makeFilterStrings\<close> is a parameter: it throws an \<open>Error\<close> (\<open>Inl\<close>, with the
  message) or returns the filter strings as a new array.
\<close>

definition outputArg :: "target option \<Rightarrow> jsval list" where
  "outputArg t =
     (case t of
        None \<Rightarrow> []
      | Some (File p) \<Rightarrow> if p = [] then [] else [Str ''-o'', Str p]
      | Some Stream \<Rightarrow> [Str ''pipe:1''])"

definition filter_arg :: "string \<Rightarrow> jsval list \<Rightarrow> jsval list" where
  "filter_arg flag filters = (if length filters \<noteq> 0 then [Str flag, Str (js_join '','' filters)] else [])"

definition output_args ::
  "(jsval list \<Rightarrow> string + jsval list) \<Rightarrow> ref \<Rightarrow> cmd_output \<Rightarrow> heap \<Rightarrow> (errval + ref) \<times> heap" where
  "output_args makeFilterStrings args out h =
     (case makeFilterStrings (h ! sizeFilters out) of
        Inl msg \<Rightarrow> (Inl (Error msg), h)
      | Inr strs \<Rightarrow>
          (let (sizeF, h1) = new_array strs h;
               audioF = audioFilters out;
               (videoF, h2) = js_concat (videoFilters out) [sizeF] h1;
               (outArg, h3) = new_array (outputArg (out_target out)) h2;
               (af, h4) = new_array (filter_arg ''-af'' (h3 ! audioF)) h3;
               (vf, h5) = new_array (filter_arg ''-vf'' (h4 ! videoF)) h4;
               (args', h6) = js_concat args [audio out, af, video out, vf, out_options out, outArg] h5
           in (Inr args', h6)))"

fun reduce_outputs ::
  "(jsval list \<Rightarrow> string + jsval list) \<Rightarrow> cmd_output list \<Rightarrow> ref \<Rightarrow> heap \<Rightarrow> (errval + ref) \<times> heap" where
  "reduce_outputs mfs [] args h = (Inr args, h)"
| "reduce_outputs mfs (out # outs) args h =
     (case output_args mfs args out h of
        (Inl e, h') \<Rightarrow> (Inl e, h')
      | (Inr args', h') \<Rightarrow> reduce_outputs mfs outs args' h')"

definition getArguments ::
  "(jsval list \<Rightarrow> string + jsval list) \<Rightarrow> command \<Rightarrow> heap \<Rightarrow> (errval + ref) \<times> heap" where
  "getArguments mfs c h =
     (let complexF = complexFilters c;
          (base, h0) = new_array [] h;
          (init_in, h1) = new_array [] h0;
          (ins, h2) = reduce_inputs (inputs c) init_in h1;
          (init_out, h3) = new_array [] h2
      in case reduce_outputs mfs (outputs c) init_out h3 of
           (Inl e, h4) \<Rightarrow> (Inl e, h4)
         | (Inr outs, h4) \<Rightarrow>
             (case js_concat base [ins, global c, complexF, outs] h4 of
                (r, h5) \<Rightarrow> (Inr r, h5)))"

subsection \<open>The order of the tokens, as the specification words it\<close>

text \<open>
  Each input contributes its option tokens and then its locator; each output its audio
  options, the audio filters joined into one token behind \<open>-af\<close> when there are any, its
  video options, the video and size filters joined into one token behind \<open>-vf\<close> when there
  are any, its output options and last the locator of the target.
\<close>

text \<open>
  The locator of an output: the file path, behind \<open>-o\<close>; the placeholder \<open>pipe:1\<close> for a
  stream; nothing when no target is set, that is when the key is absent or the path is
  empty.
\<close>

fun spec_locator :: "target option \<Rightarrow> jsval list" where
  "spec_locator None = []"
| "spec_locator (Some Stream) = [Str ''pipe:1'']"
| "spec_locator (Some (File path)) = (if path = [] then [] else [Str ''-o'', Str path])"

definition spec_input_tokens :: "heap \<Rightarrow> cmd_input \<Rightarrow> jsval list" where
  "spec_input_tokens h i =
     h ! in_options i @
     [Str (''mf://'' @ (case in_source i of SrcString s \<Rightarrow> s | SrcStream \<Rightarrow> ''pipe:0''))]"

definition spec_output_tokens ::
  "(jsval list \<Rightarrow> string + jsval list) \<Rightarrow> heap \<Rightarrow> cmd_output \<Rightarrow> jsval list" where
  "spec_output_tokens mfs h out =
     h ! audio out
     @ (if h ! audioFilters out = [] then []
        else [Str ''-af'', Str (js_join '','' (h ! audioFilters out))])
     @ h ! video out
     @ (case mfs (h ! sizeFilters out) of
          Inl e \<Rightarrow> []
        | Inr strs \<Rightarrow>
            if h ! videoFilters out @ strs = [] then []
            else [Str ''-vf'', Str (js_join '','' (h ! videoFilters out @ strs))])
     @ h ! out_options out
     @ spec_locator (out_target out)"

definition spec_arguments ::
  "(jsval list \<Rightarrow> string + jsval list) \<Rightarrow> command \<Rightarrow> heap \<Rightarrow> jsval list" where
  "spec_arguments mfs c h =
     concat (map (spec_input_tokens h) (inputs c))
     @ h ! global c
     @ h ! complexFilters c
     @ concat (map (spec_output_tokens mfs h) (outputs c))"

text \<open>The arrays a command refers to are allocated.\<close>

definition input_refs_ok :: "heap \<Rightarrow> cmd_input \<Rightarrow> bool" where
  "input_refs_ok h i = (in_options i < length h)"

definition output_refs_ok :: "heap \<Rightarrow> cmd_output \<Rightarrow> bool" where
  "output_refs_ok h out =
     (audio out < length h \<and> audioFilters out < length h \<and> video out < length h \<and>
      videoFilters out < length h \<and> sizeFilters out < length h \<and> out_options out < length h)"

definition command_refs_ok :: "heap \<Rightarrow> command \<Rightarrow> bool" where
  "command_refs_ok h c =
     (list_all (input_refs_ok h) (inputs c) \<and> list_all (output_refs_ok h) (outputs c) \<and>
      global c < length h \<and> complexFilters c < length h)"

definition filters_ok :: "(jsval list \<Rightarrow> string + jsval list) \<Rightarrow> heap \<Rightarrow> cmd_output \<Rightarrow> bool" where
  "filters_ok mfs h out = (case mfs (h ! sizeFilters out) of Inl e \<Rightarrow> False | Inr strs \<Rightarrow> True)"

text \<open>The tokens of a result of \<open>getArguments\<close>, when it returned an array.\<close>

definition arguments_of :: "(errval + ref) \<times> heap \<Rightarrow> jsval list option" where
  "arguments_of res = (case res of (Inl e, h) \<Rightarrow> None | (Inr r, h) \<Rightarrow> Some (h ! r))"

section \<open>Spawning and supervising the process\<close>

text \<open>
  What \<open>_spawnMencoder\<close> touches outside its own variables: the path cache, the arrays
  (the caller's \<open>args\<close> among them) and the processes spawned so far. A process handle is
  the position of the process in that list. \<open>spawn\<close> returns a handle in every case: a
  process that cannot be started (\<open>ENOENT\<close>, \<open>EACCES\<close>) reports that later, through the
  \<open>error\<close> event of the handle.
\<close>

record world =
  cache :: path_cache
  arrays :: heap
  procs :: "spawn_req list"

record spawn_options =
  niceness :: "int option"
  captureStdout :: bool
  captureStderr :: bool

text \<open>
  A callback argument that was not passed is \<open>Undefined\<close>; a capture variable is \<open>null\<close>
  until capturing starts with the empty string.
\<close>

datatype capture = Undefined | Null | Text string

datatype cb_call = ProcessCB nat | EndCB "errval option" capture capture

record supervisor =
  processExited :: bool
  stdoutClosed :: bool
  stderrClosed :: bool
  exitError :: "errval option"
  sup_stdout :: capture
  sup_stderr :: capture

definition sup_init :: "spawn_options \<Rightarrow> supervisor" where
  "sup_init options =
     \<lparr>processExited = False, stdoutClosed = False, stderrClosed = False, exitError = None,
      sup_stdout = (if captureStdout options then Text [] else Null),
      sup_stderr = (if captureStderr options then Text [] else Null)\<rparr>"

text \<open>\<open>options.niceness && options.niceness !== 0 && !utils.isWindows\<close>\<close>

definition apply_niceness :: "sysenv \<Rightarrow> spawn_options \<Rightarrow> bool" where
  "apply_niceness env options =
     (case niceness options of None \<Rightarrow> False | Some n \<Rightarrow> n \<noteq> 0 \<and> n \<noteq> 0 \<and> \<not> isWindows env)"

text \<open>
  The synchronous part of \<open>_spawnMencoder\<close>: the callbacks it invokes, in order, the
  supervisor's variables when a process was spawned, and the world after it.
\<close>

definition spawnMencoder ::
  "sysenv \<Rightarrow> ref \<Rightarrow> spawn_options \<Rightarrow> world \<Rightarrow> cb_call list \<times> supervisor option \<times> world" where
  "spawnMencoder env args options w =
     (case getMencoderPath env (cache w) of
        (Inl err, c') \<Rightarrow> ([EndCB (Some err) Undefined Undefined], None, w\<lparr>cache := c'\<rparr>)
      | (Inr command, c') \<Rightarrow>
          if command = [] then
            ([EndCB (Some (Error ''Cannot find mencoder'')) Undefined Undefined], None,
             w\<lparr>cache := c'\<rparr>)
          else
            let nice = apply_niceness env options;
                h = (if nice
                     then js_unshift args [Str ''-n'', Num (the (niceness options)), Str command]
                            (arrays w)
                     else arrays w);
                command' = (if nice then ''nice'' else command);
                mencoderProc = length (procs w);
                w' = w\<lparr>cache := c', arrays := h,
                       procs := procs w @ [\<lparr>sp_command = command', sp_args = h ! args\<rparr>]\<rparr>
            in ([ProcessCB mencoderProc], Some (sup_init options), w'))"

subsection \<open>The handlers\<close>

datatype proc_event =
    ProcError errval
  | ProcExit "int option" "string option"
  | StdoutData string
  | StdoutClose
  | StderrData string
  | StderrClose

definition truthy_str :: "string option \<Rightarrow> bool" where
  "truthy_str s = (case s of None \<Rightarrow> False | Some t \<Rightarrow> t \<noteq> [])"

definition truthy_int :: "int option \<Rightarrow> bool" where
  "truthy_int n = (case n of None \<Rightarrow> False | Some k \<Rightarrow> k \<noteq> 0)"

fun cap_append :: "capture \<Rightarrow> string \<Rightarrow> capture" where
  "cap_append (Text s) d = Text (s @ d)"
| "cap_append Null d = Text (''null'' @ d)"
| "cap_append Undefined d = Text (''undefined'' @ d)"

definition handleExit ::
  "spawn_options \<Rightarrow> errval option \<Rightarrow> supervisor \<Rightarrow> supervisor \<times> cb_call list" where
  "handleExit options err s =
     (let s1 = (case err of None \<Rightarrow> s | Some e \<Rightarrow> s\<lparr>exitError := Some e\<rparr>)
      in if processExited s1 \<and>
            (stdoutClosed s1 \<or> \<not> captureStdout options) \<and>
            (stderrClosed s1 \<or> \<not> captureStderr options)
         then (s1, [EndCB (exitError s1) (sup_stdout s1) (sup_stderr s1)])
         else (s1, []))"

text \<open>The error an exit event stands for, if any.\<close>

definition exit_err :: "int option \<Rightarrow> string option \<Rightarrow> errval option" where
  "exit_err code signal =
     (if truthy_str signal then Some (Error (''mencoder was killed with signal '' @ the signal))
      else if truthy_int code
      then Some (Error (''mencoder exited with code '' @ string_of_int (the code)))
      else None)"

text \<open>
  One event of the process, handled by the handlers \<open>_spawnMencoder\<close> registered: the
  supervisor's variables afterwards and the calls of \<open>endCB\<close> made. The stream handlers
  exist only when the capture was requested.
\<close>

fun sup_handle ::
  "spawn_options \<Rightarrow> proc_event \<Rightarrow> supervisor \<Rightarrow> supervisor \<times> cb_call list" where
  "sup_handle options (ProcError err) s = (s, [EndCB (Some err) Undefined Undefined])"
| "sup_handle options (ProcExit code signal) s =
     handleExit options (exit_err code signal) (s\<lparr>processExited := True\<rparr>)"
| "sup_handle options (StdoutData d) s =
     (if captureStdout options then (s\<lparr>sup_stdout := cap_append (sup_stdout s) d\<rparr>, [])
      else (s, []))"
| "sup_handle options StdoutClose s =
     (if captureStdout options then handleExit options None (s\<lparr>stdoutClosed := True\<rparr>)
      else (s, []))"
| "sup_handle options (StderrData d) s =
     (if captureStderr options then (s\<lparr>sup_stderr := cap_append (sup_stderr s) d\<rparr>, [])
      else (s, []))"
| "sup_handle options StderrClose s =
     (if captureStderr options then handleExit options None (s\<lparr>stderrClosed := True\<rparr>)
      else (s, []))"

fun sup_run ::
  "spawn_options \<Rightarrow> proc_event list \<Rightarrow> supervisor \<Rightarrow> supervisor \<times> cb_call list" where
  "sup_run options [] s = (s, [])"
| "sup_run options (e # es) s =
     (case sup_handle options e s of
        (s1, calls1) \<Rightarrow> (case sup_run options es s1 of (s2, calls2) \<Rightarrow> (s2, calls1 @ calls2)))"

subsection \<open>Event sequences of one process\<close>

text \<open>
  A process exits at most once, a stream closes at most once and delivers no data after
  that. The flags say what has already happened. Sequences with an \<open>error\<close> event are
  not among these.
\<close>

fun orderly :: "bool \<Rightarrow> bool \<Rightarrow> bool \<Rightarrow> proc_event list \<Rightarrow> bool" where
  "orderly x oc ec [] = True"
| "orderly x oc ec (ProcError err # es) = False"
| "orderly x oc ec (ProcExit code signal # es) = (\<not> x \<and> orderly True oc ec es)"
| "orderly x oc ec (StdoutData d # es) = (\<not> oc \<and> orderly x oc ec es)"
| "orderly x oc ec (StdoutClose # es) = (\<not> oc \<and> orderly x True ec es)"
| "orderly x oc ec (StderrData d # es) = (\<not> ec \<and> orderly x oc ec es)"
| "orderly x oc ec (StderrClose # es) = (\<not> ec \<and> orderly x oc True es)"

fun is_exit :: "proc_event \<Rightarrow> bool" where
  "is_exit (ProcExit code signal) = True"
| "is_exit e = False"

text \<open>Everything the completion waits for has been observed.\<close>

definition complete :: "spawn_options \<Rightarrow> proc_event list \<Rightarrow> bool" where
  "complete options evs =
     (list_ex is_exit evs \<and>
      (StdoutClose \<in> set evs \<or> \<not> captureStdout options) \<and>
      (StderrClose \<in> set evs \<or> \<not> captureStderr options))"

fun exit_error :: "proc_event list \<Rightarrow> errval option" where
  "exit_error [] = None"
| "exit_error (ProcExit code signal # es) = exit_err code signal"
| "exit_error (e # es) = exit_error es"

fun stdout_chunks :: "proc_event list \<Rightarrow> string" where
  "stdout_chunks [] = []"
| "stdout_chunks (StdoutData d # es) = d @ stdout_chunks es"
| "stdout_chunks (e # es) = stdout_chunks es"

fun stderr_chunks :: "proc_event list \<Rightarrow> string" where
  "stderr_chunks [] = []"
| "stderr_chunks (StderrData d # es) = d @ stderr_chunks es"
| "stderr_chunks (e # es) = stderr_chunks es"

definition captured_stdout :: "spawn_options \<Rightarrow> proc_event list \<Rightarrow> capture" where
  "captured_stdout options evs = (if captureStdout options then Text (stdout_chunks evs) else Null)"

definition captured_stderr :: "spawn_options \<Rightarrow> proc_event list \<Rightarrow> capture" where
  "captured_stderr options evs = (if captureStderr options then Text (stderr_chunks evs) else Null)"

subsection \<open>The supervisor's variables after an orderly sequence\<close>

text \<open>
  The shape of the supervisor's variables in terms of what has been observed and
  captured so far, and the condition under which the completion is still outstanding.
\<close>

definition sup_state ::
  "spawn_options \<Rightarrow> bool \<Rightarrow> bool \<Rightarrow> bool \<Rightarrow> errval option \<Rightarrow> string \<Rightarrow> string \<Rightarrow> supervisor" where
  "sup_state options x oc ec e a b =
     \<lparr>processExited = x, stdoutClosed = (oc \<and> captureStdout options),
      stderrClosed = (ec \<and> captureStderr options), exitError = e,
      sup_stdout = (if captureStdout options then Text a else Null),
      sup_stderr = (if captureStderr options then Text b else Null)\<rparr>"

definition waiting :: "spawn_options \<Rightarrow> bool \<Rightarrow> bool \<Rightarrow> bool \<Rightarrow> bool" where
  "waiting options x oc ec =
     (\<not> (x \<and> (oc \<or> \<not> captureStdout options) \<and> (ec \<or> \<not> captureStderr options)))"

definition completes :: "spawn_options \<Rightarrow> bool \<Rightarrow> bool \<Rightarrow> bool \<Rightarrow> proc_event list \<Rightarrow> bool" where
  "completes options x oc ec evs =
     (waiting options x oc ec \<and> (x \<or> list_ex is_exit evs) \<and>
      (oc \<or> StdoutClose \<in> set evs \<or> \<not> captureStdout options) \<and>
      (ec \<or> StderrClose \<in> set evs \<or> \<not> captureStderr options))"

section \<open>Running a command\<close>

text \<open>
  The command as \<open>run\<close> reads it: the inputs, outputs and option arrays, and the options
  \<open>niceness\<close> and \<open>timeout\<close>. The functions of the module \<open>utils\<close> that \<open>run\<close> calls are
  parameters: \<open>makeFilterStrings\<close>; \<open>extractProgress\<close>, given as the progress reports it
  emits for the accumulated stdout and the known duration; the scan for the codec banner
  in the accumulated stderr; and \<open>extractError\<close>.
\<close>

record run_command = command +
  opt_niceness :: int
  opt_timeout :: "int option"

record utils =
  makeFilterStrings :: "jsval list \<Rightarrow> string + jsval list"
  extractProgress :: "string \<Rightarrow> int \<Rightarrow> string list"
  codecBanner :: "string \<Rightarrow> string option"
  extractError :: "string \<Rightarrow> string"

datatype run_event =
    Start string
  | Progress string
  | CodecData string
  | ErrorEv errval capture capture
  | EndEv capture capture

fun is_terminal :: "run_event \<Rightarrow> bool" where
  "is_terminal (ErrorEv err out errout) = True"
| "is_terminal (EndEv out errout) = True"
| "is_terminal e = False"

fun is_codecData :: "run_event \<Rightarrow> bool" where
  "is_codecData (CodecData d) = True"
| "is_codecData e = False"

text \<open>
  The state of one run: the world, the outputs with their flags as \<open>_prepare\<close> left them,
  the log, the events emitted, the variables closed over by the callbacks of \<open>run\<close>
  (\<open>ended\<close>, \<open>stdout\<close>, \<open>stderr\<close>), the fields \<open>mencoderProc\<close> and \<open>_codecDataSent\<close> of the
  command, the supervisor's variables, which handlers \<open>processCB\<close> registered, the timers,
  the signals sent with \<open>mencoderProc.kill()\<close>, the listener counts, the duration read by
  \<open>ffprobe\<close>, and the state of the \<open>async.each\<close> over the outputs that need their metadata
  rewritten. An exception that nothing catches ends the program: \<open>crashed\<close>.
\<close>

record run_state =
  rs_world :: world
  rs_outputs :: "cmd_output list"
  rs_log :: "log_entry list"
  emitted :: "run_event list"
  ended :: bool
  crashed :: "errval option"
  run_stdout :: capture
  run_stderr :: string
  running_proc :: "nat option"
  codecDataSent :: bool
  sup :: "supervisor option"
  sup_options :: spawn_options
  input_wired :: bool
  output_wired :: bool
  timer :: "int option"
  kill_timers :: nat
  kills :: nat
  progress_listeners :: nat
  codecData_listeners :: nat
  duration :: int
  flv_tool :: string
  flv_targets :: "string list"
  flv_completed :: nat
  flv_live :: bool

datatype run_result = Threw errval world | Began run_state

subsection \<open>The terminal event\<close>

definition truthy_err :: "errval option \<Rightarrow> bool" where
  "truthy_err err = (case err of None \<Rightarrow> False | Some (Error m) \<Rightarrow> True | Some (ErrStr t) \<Rightarrow> t \<noteq> [])"

text \<open>\<open>emitEnd\<close>: the first call emits \<open>error\<close> or \<open>end\<close> and sets \<open>ended\<close>; later calls do nothing.\<close>

definition emitEnd :: "errval option \<Rightarrow> capture \<Rightarrow> capture \<Rightarrow> run_state \<Rightarrow> run_state" where
  "emitEnd err out errout s =
     (if \<not> ended s then
        (if truthy_err err
         then s\<lparr>ended := True, emitted := emitted s @ [ErrorEv (the err) out errout]\<rparr>
         else s\<lparr>ended := True, emitted := emitted s @ [EndEv out errout]\<rparr>)
      else s)"

subsection \<open>Preparation\<close>

text \<open>
  \<open>this._outputs.some(...)\<close> with its side effect: the flag of an output that is not a
  file is cleared with a warning, and the traversal stops at the first output whose flag
  is (still) set.
\<close>

fun check_flvmeta :: "cmd_output list \<Rightarrow> cmd_output list \<times> log_entry list \<times> bool" where
  "check_flvmeta [] = ([], [], False)"
| "check_flvmeta (out # outs) =
     (if flvmeta out \<and> \<not> isFile out then
        (case check_flvmeta outs of
           (outs', warns, found) \<Rightarrow>
             (out\<lparr>flvmeta := False\<rparr> # outs',
              Warn ''Updating flv metadata is only supported for files'' # warns, found))
      else if flvmeta out then (out # outs, [], True)
      else (case check_flvmeta outs of (outs', warns, found) \<Rightarrow> (out # outs', warns, found)))"

definition prepare ::
  "sysenv \<Rightarrow> utils \<Rightarrow> run_command \<Rightarrow> world \<Rightarrow>
   (errval + ref) \<times> cmd_output list \<times> log_entry list \<times> world" where
  "prepare env u c w =
     (case check_flvmeta (outputs c) of
        (outs, warns, found) \<Rightarrow>
          (case (if found then getFlvtoolPath env (cache w) else (Inr [], cache w)) of
             (Inl err, c1) \<Rightarrow> (Inl err, outs, warns, w\<lparr>cache := c1\<rparr>)
           | (Inr p, c1) \<Rightarrow>
               (case getArguments (makeFilterStrings u)
                       (command.truncate (c\<lparr>outputs := outs\<rparr>)) (arrays w) of
                  (res, h) \<Rightarrow> (res, outs, warns, w\<lparr>cache := c1, arrays := h\<rparr>))))"

subsection \<open>The callbacks of \<open>run\<close>\<close>

definition outputPresent :: "run_command \<Rightarrow> bool" where
  "outputPresent c = list_ex (\<lambda>out. out_target out \<noteq> None) (outputs c)"

text \<open>\<open>typeof output.target !== 'string'\<close> holds for a stream and for an absent target.\<close>

definition outputStream :: "run_command \<Rightarrow> cmd_output option" where
  "outputStream c =
     find (\<lambda>out. case out_target out of Some (File p) \<Rightarrow> False | _ \<Rightarrow> True) (outputs c)"

definition inputStream :: "run_command \<Rightarrow> cmd_input option" where
  "inputStream c = find (\<lambda>i. in_source i = SrcStream) (inputs c)"

definition truthy_timeout :: "int option \<Rightarrow> bool" where
  "truthy_timeout t = (case t of None \<Rightarrow> False | Some n \<Rightarrow> n \<noteq> 0)"

text \<open>
  \<open>processCB\<close>. Piping into an output that has no target throws a \<open>TypeError\<close> that nothing
  catches.
\<close>

definition processCB :: "run_command \<Rightarrow> ref \<Rightarrow> nat \<Rightarrow> run_state \<Rightarrow> run_state" where
  "processCB c args proc s =
     (let s1 = s\<lparr>running_proc := Some proc,
                 emitted := emitted s @
                   [Start (''mencoder '' @ js_join '' '' (arrays (rs_world s) ! args))]\<rparr>;
          s2 = (if inputStream c \<noteq> None then s1\<lparr>input_wired := True\<rparr> else s1);
          s3 = (if truthy_timeout (opt_timeout c) then s2\<lparr>timer := opt_timeout c\<rparr> else s2)
      in case outputStream c of
           Some out \<Rightarrow>
             (case out_target out of
                None \<Rightarrow> s3\<lparr>crashed := Some (Error ''TypeError'')\<rparr>
              | Some t \<Rightarrow> s3\<lparr>output_wired := True, codecDataSent := False\<rparr>)
         | None \<Rightarrow> s3\<lparr>run_stdout := Text [], codecDataSent := False\<rparr>)"

text \<open>The message of an \<open>Error\<close> object; a string has none.\<close>

fun message :: "errval \<Rightarrow> string option" where
  "message (Error m) = Some m"
| "message (ErrStr t) = None"

fun contains :: "string \<Rightarrow> string \<Rightarrow> bool" where
  "contains [] needle = (needle = [])"
| "contains (c # cs) needle = (prefix needle (c # cs) \<or> contains cs needle)"

definition target_string :: "target option \<Rightarrow> string" where
  "target_string t =
     (case t of None \<Rightarrow> ''undefined'' | Some (File p) \<Rightarrow> p | Some Stream \<Rightarrow> ''[object Object]'')"

text \<open>
  \<open>endCB\<close> of \<open>run\<close>. On an error the terminal event is emitted at once. Otherwise, with
  at least one output flagged for a metadata rewrite, the rewriter is spawned on each of
  them (\<open>async.each\<close> calls the iterator on every element in turn); without one, \<open>end\<close> is
  emitted.
\<close>

definition run_endCB :: "sysenv \<Rightarrow> utils \<Rightarrow> errval option \<Rightarrow> run_state \<Rightarrow> run_state" where
  "run_endCB env u err s0 =
     (let s = s0\<lparr>running_proc := None\<rparr> in
      if truthy_err err then
        (case message (the err) of
           None \<Rightarrow> s\<lparr>crashed := Some (Error ''TypeError'')\<rparr>
         | Some m \<Rightarrow>
             let err' = (if contains m ''mencoder exited with code''
                         then Error (m @ '': '' @ extractError u (run_stderr s))
                         else the err)
             in emitEnd (Some err') (run_stdout s) (Text (run_stderr s)) s)
      else
        (let flvmeta = filter flvmeta (rs_outputs s) in
         if length flvmeta \<noteq> 0 then
           (case getFlvtoolPath env (cache (rs_world s)) of
              (Inl e, c1) \<Rightarrow>
                s\<lparr>rs_world := (rs_world s)\<lparr>cache := c1\<rparr>, crashed := Some (Error ''TypeError'')\<rparr>
            | (Inr flvtool, c1) \<Rightarrow>
                s\<lparr>rs_world := (rs_world s)
                     \<lparr>cache := c1,
                      procs := procs (rs_world s) @
                        map (\<lambda>out. \<lparr>sp_command = flvtool,
                                     sp_args = [Str ''-U'', Str (target_string (out_target out))]\<rparr>)
                          flvmeta\<rparr>,
                  flv_tool := flvtool,
                  flv_targets := map (\<lambda>out. target_string (out_target out)) flvmeta,
                  flv_completed := 0,
                  flv_live := True\<rparr>)
         else emitEnd None (run_stdout s) (Text (run_stderr s)) s))"

text \<open>
  The \<open>done\<close> function of \<open>async.each\<close> (a library outside the repository, taken by its
  documented behaviour) composed with the final callback of \<open>run\<close>: the first error is
  passed on at once and the callback is dropped; without an error the count goes up and
  the callback runs when every element is done.
\<close>

definition flv_done :: "errval option \<Rightarrow> run_state \<Rightarrow> run_state" where
  "flv_done err s =
     (if truthy_err err then
        (if flv_live s then (emitEnd err Undefined Undefined s)\<lparr>flv_live := False\<rparr> else s)
      else
        (let s1 = s\<lparr>flv_completed := Suc (flv_completed s)\<rparr> in
         if flv_completed s1 \<ge> length (flv_targets s1) \<and> flv_live s1
         then emitEnd None (run_stdout s1) (Text (run_stderr s1)) s1
         else s1))"

text \<open>The errors the iterator passes for a rewriter that could not run or failed.\<close>

definition flv_spawn_error :: "string \<Rightarrow> string \<Rightarrow> string \<Rightarrow> errval" where
  "flv_spawn_error flvtool tgt msg =
     Error (''Error running '' @ flvtool @ '' on '' @ tgt @ '': '' @ msg)"

definition flv_exit_error :: "string \<Rightarrow> string \<Rightarrow> int option \<Rightarrow> string option \<Rightarrow> errval" where
  "flv_exit_error flvtool tgt code signal =
     ErrStr (''Error: '' @ flvtool @ '' '' @
             (if truthy_str signal then ''received signal '' @ the signal
              else ''exited with code '' @ (case code of None \<Rightarrow> ''null'' | Some k \<Rightarrow> string_of_int k))
             @ '' when running on '' @ tgt)"

text \<open>
  Modelled from the spec: \<open>utils.extractCodecData\<close>, which is not among the sources at
  hand. It scans the accumulated stderr for the codec banner; when the banner is there
  it emits one \<open>codecData\<close> event and sets the latch \<open>_codecDataSent\<close> of the run.
\<close>

definition extractCodecData :: "utils \<Rightarrow> string \<Rightarrow> run_state \<Rightarrow> run_state" where
  "extractCodecData u text s =
     (case codecBanner u text of
        None \<Rightarrow> s
      | Some d \<Rightarrow> s\<lparr>emitted := emitted s @ [CodecData d], codecDataSent := True\<rparr>)"

subsection \<open>Events of a run\<close>

datatype run_input =
    Proc proc_event
  | InputError string
  | Timeout
  | OutputClose
  | KillTimer
  | OutputError string
  | FlvError nat string
  | FlvExit nat "int option" "string option"
  | ListenProgress
  | ListenCodecData
  | FfprobeData int

text \<open>The data handlers \<open>processCB\<close> registered on the streams of the process.\<close>

definition on_stdout_data :: "utils \<Rightarrow> string \<Rightarrow> run_state \<Rightarrow> run_state" where
  "on_stdout_data u d s =
     (if output_wired s then s
      else
        let s1 = s\<lparr>run_stdout := cap_append (run_stdout s) d\<rparr> in
        if progress_listeners s1 \<noteq> 0
        then s1\<lparr>emitted := emitted s1 @
                 map Progress (extractProgress u (case run_stdout s1 of Text t \<Rightarrow> t | _ \<Rightarrow> [])
                                 (duration s1))\<rparr>
        else s1)"

definition on_stderr_data :: "utils \<Rightarrow> string \<Rightarrow> run_state \<Rightarrow> run_state" where
  "on_stderr_data u d s =
     (let s1 = s\<lparr>run_stderr := run_stderr s @ d\<rparr> in
      if \<not> codecDataSent s1 \<and> codecData_listeners s1 \<noteq> 0
      then extractCodecData u (run_stderr s1) s1
      else s1)"

fun end_calls :: "sysenv \<Rightarrow> utils \<Rightarrow> cb_call list \<Rightarrow> run_state \<Rightarrow> run_state" where
  "end_calls env u [] s = s"
| "end_calls env u (EndCB err out errout # calls) s = end_calls env u calls (run_endCB env u err s)"
| "end_calls env u (ProcessCB h # calls) s = end_calls env u calls s"

definition on_proc :: "sysenv \<Rightarrow> utils \<Rightarrow> proc_event \<Rightarrow> run_state \<Rightarrow> run_state" where
  "on_proc env u e s =
     (case sup s of
        None \<Rightarrow> s
      | Some sp \<Rightarrow>
          (case sup_handle (sup_options s) e sp of
             (sp', calls) \<Rightarrow>
               let s1 = end_calls env u calls (s\<lparr>sup := Some sp'\<rparr>) in
               if crashed s1 \<noteq> None then s1
               else (case e of
                       StdoutData d \<Rightarrow> on_stdout_data u d s1
                     | StderrData d \<Rightarrow> on_stderr_data u d s1
                     | _ \<Rightarrow> s1)))"

definition kill_proc :: "run_state \<Rightarrow> run_state" where
  "kill_proc s = s\<lparr>kills := Suc (kills s)\<rparr>"

definition run_step :: "sysenv \<Rightarrow> utils \<Rightarrow> run_input \<Rightarrow> run_state \<Rightarrow> run_state" where
  "run_step env u ev s =
     (if crashed s \<noteq> None then s
      else case ev of
        Proc e \<Rightarrow> on_proc env u e s
      | InputError msg \<Rightarrow>
          if input_wired s
          then kill_proc (emitEnd (Some (Error (''Input stream error: '' @ msg))) Undefined Undefined s)
          else s
      | Timeout \<Rightarrow>
          (case timer s of
             None \<Rightarrow> s
           | Some t \<Rightarrow>
               kill_proc
                 (emitEnd (Some (Error (''process ran into a timeout ('' @ string_of_int t @ ''s)'')))
                    (run_stdout s) (Text (run_stderr s)) s))
      | OutputClose \<Rightarrow>
          if output_wired s
          then s\<lparr>rs_log := rs_log s @
                   [Debug ''Output stream closed, scheduling kill for ffmpgeg process''],
                 kill_timers := Suc (kill_timers s)\<rparr>
          else s
      | KillTimer \<Rightarrow>
          if kill_timers s \<noteq> 0
          then kill_proc
                 (emitEnd (Some (Error ''Output stream closed'')) Undefined Undefined
                    (s\<lparr>kill_timers := kill_timers s - 1\<rparr>))
          else s
      | OutputError msg \<Rightarrow>
          if output_wired s
          then kill_proc
                 (emitEnd (Some (Error (''Output stream error: '' @ msg))) Undefined Undefined
                    (s\<lparr>rs_log := rs_log s @ [Debug ''Output stream error, killing mencoder process'']\<rparr>))
          else s
      | FlvError i msg \<Rightarrow>
          if i < length (flv_targets s)
          then flv_done (Some (flv_spawn_error (flv_tool s) (flv_targets s ! i) msg)) s
          else s
      | FlvExit i code signal \<Rightarrow>
          if i < length (flv_targets s)
          then (if code \<noteq> Some 0 \<or> truthy_str signal
                then flv_done (Some (flv_exit_error (flv_tool s) (flv_targets s ! i) code signal)) s
                else flv_done None s)
          else s
      | ListenProgress \<Rightarrow> s\<lparr>progress_listeners := Suc (progress_listeners s)\<rparr>
      | ListenCodecData \<Rightarrow> s\<lparr>codecData_listeners := Suc (codecData_listeners s)\<rparr>
      | FfprobeData d \<Rightarrow> s\<lparr>duration := d\<rparr>)"

fun run_steps :: "sysenv \<Rightarrow> utils \<Rightarrow> run_input list \<Rightarrow> run_state \<Rightarrow> run_state" where
  "run_steps env u [] s = s"
| "run_steps env u (ev # evs) s = run_steps env u evs (run_step env u ev s)"

subsection \<open>run\<close>

definition fresh_run :: "world \<Rightarrow> cmd_output list \<Rightarrow> log_entry list \<Rightarrow> nat \<Rightarrow> nat \<Rightarrow> run_state" where
  "fresh_run w outs warns pl cl =
     \<lparr>rs_world = w, rs_outputs = outs, rs_log = warns, emitted = [], ended = False,
      crashed = None, run_stdout = Null, run_stderr = [], running_proc = None,
      codecDataSent = False, sup = None,
      sup_options = \<lparr>niceness = None, captureStdout = False, captureStderr = False\<rparr>,
      input_wired = False, output_wired = False, timer = None, kill_timers = 0, kills = 0,
      progress_listeners = pl, codecData_listeners = cl, duration = 0,
      flv_tool = [], flv_targets = [], flv_completed = 0, flv_live = False\<rparr>"

fun start_calls ::
  "sysenv \<Rightarrow> utils \<Rightarrow> run_command \<Rightarrow> ref \<Rightarrow> cb_call list \<Rightarrow> run_state \<Rightarrow> run_state" where
  "start_calls env u c args [] s = s"
| "start_calls env u c args (ProcessCB h # calls) s =
     start_calls env u c args calls (processCB c args h s)"
| "start_calls env u c args (EndCB err out errout # calls) s =
     start_calls env u c args calls (run_endCB env u err s)"

text \<open>
  \<open>run\<close>, up to the point where the process has been spawned and the handlers are in
  place: the check for an output, \<open>_prepare\<close>, \<open>_spawnMencoder\<close> with the niceness of the
  command and no capture, and the callbacks invoked on the way. \<open>pl\<close> and \<open>cl\<close> are the
  numbers of \<open>progress\<close> and \<open>codecData\<close> listeners at the time of the call.
\<close>

definition run :: "sysenv \<Rightarrow> utils \<Rightarrow> run_command \<Rightarrow> nat \<Rightarrow> nat \<Rightarrow> world \<Rightarrow> run_result" where
  "run env u c pl cl w =
     (if \<not> outputPresent c then Threw (Error ''No output specified'') w
      else
        (case prepare env u c w of
           (Inl err, outs, warns, w1) \<Rightarrow>
             Began (emitEnd (Some err) Undefined Undefined (fresh_run w1 outs warns pl cl))
         | (Inr args, outs, warns, w1) \<Rightarrow>
             (let options = \<lparr>niceness = Some (opt_niceness c), captureStdout = False,
                             captureStderr = False\<rparr>
              in case spawnMencoder env args options w1 of
                   (calls, sp, w2) \<Rightarrow>
                     Began (start_calls env u c args calls
                              ((fresh_run w2 outs warns pl cl)\<lparr>sup := sp, sup_options := options\<rparr>)))))"

text \<open>What a call of \<open>run\<close> and the events after it have emitted and spawned.\<close>

fun after_events :: "sysenv \<Rightarrow> utils \<Rightarrow> run_input list \<Rightarrow> run_result \<Rightarrow> run_result" where
  "after_events env u evs (Threw err w) = Threw err w"
| "after_events env u evs (Began s) = Began (run_steps env u evs s)"

fun events_of :: "run_result \<Rightarrow> run_event list" where
  "events_of (Threw err w) = []"
| "events_of (Began s) = emitted s"

fun world_of :: "run_result \<Rightarrow> world" where
  "world_of (Threw err w) = w"
| "world_of (Began s) = rs_world s"

definition terminal_events :: "run_event list \<Rightarrow> run_event list" where
  "terminal_events evs = filter is_terminal evs"

subsection \<open>Invariants of a run\<close>

text \<open>
  The latch \<open>ended\<close> is set exactly when a terminal event has been emitted, and the latch
  \<open>_codecDataSent\<close> exactly when a \<open>codecData\<close> event has been emitted. A run is settled when
  its terminal event is out, when it crashed, or when rewriters are still outstanding; it
  is live when a process was spawned without capture.
\<close>

definition latch_inv :: "run_state \<Rightarrow> bool" where
  "latch_inv s = (length (terminal_events (emitted s)) = (if ended s then 1 else 0))"

definition codec_inv :: "run_state \<Rightarrow> bool" where
  "codec_inv s = (length (filter is_codecData (emitted s)) = (if codecDataSent s then 1 else 0))"

definition settled :: "run_state \<Rightarrow> bool" where
  "settled s = (ended s \<or> crashed s \<noteq> None \<or>
                (flv_live s \<and> flv_completed s < length (flv_targets s)))"

definition no_codec :: "run_state \<Rightarrow> bool" where
  "no_codec s = (filter is_codecData (emitted s) = [] \<and> \<not> codecDataSent s)"

definition live :: "run_state \<Rightarrow> bool" where
  "live s = (sup s \<noteq> None \<and> \<not> captureStdout (sup_options s) \<and> \<not> captureStderr (sup_options s))"


text \<open>
  A run waits for the exit of its process when it has not crashed, the process was
  spawned without capture and no exit has left an error behind. Once \<open>ended\<close> is set the
  terminal events emitted are fixed.
\<close>

definition awaiting_exit :: "run_state \<Rightarrow> bool" where
  "awaiting_exit s =
     (crashed s = None \<and> (case sup s of None \<Rightarrow> False | Some sp \<Rightarrow> exitError sp = None) \<and>
      \<not> captureStdout (sup_options s) \<and> \<not> captureStderr (sup_options s))"

definition frozen :: "run_event list \<Rightarrow> run_state \<Rightarrow> bool" where
  "frozen T s = (ended s \<and> terminal_events (emitted s) = T)"

text \<open>
  Reports of the rewriters spawned for \<open>n\<close> outputs: a rewriter that exits with code 0
  and no signal succeeded; one that could not be run, or exits otherwise, failed, and the
  iterator passes the error built for it.
\<close>

fun flv_success :: "nat \<Rightarrow> run_input \<Rightarrow> bool" where
  "flv_success n (FlvExit i code signal) = (i < n \<and> code = Some 0 \<and> \<not> truthy_str signal)"
| "flv_success n ev = False"

fun flv_failure :: "nat \<Rightarrow> run_input \<Rightarrow> bool" where
  "flv_failure n (FlvExit i code signal) = (i < n \<and> (code \<noteq> Some 0 \<or> truthy_str signal))"
| "flv_failure n (FlvError i msg) = (i < n)"
| "flv_failure n ev = False"

fun flv_failure_error :: "string \<Rightarrow> string list \<Rightarrow> run_input \<Rightarrow> errval" where
  "flv_failure_error tool targets (FlvExit i code signal) = flv_exit_error tool (targets ! i) code signal"
| "flv_failure_error tool targets (FlvError i msg) = flv_spawn_error tool (targets ! i) msg"
| "flv_failure_error tool targets ev = Error []"

section \<open>Sample environments and commands\<close>

definition posix_env :: sysenv where
  "posix_env = \<lparr>env_var = (\<lambda>_. None), fs_exists = (\<lambda>_. False), which = (\<lambda>_. Inr []),
                 isWindows = False, sibling = (\<lambda>d n. d @ ''/'' @ n)\<rparr>"

definition idle_ctl :: command_ctl where
  "idle_ctl = \<lparr>options_niceness = 0, mencoderProc = None, logger = Some [], spawned = [],
                signals = []\<rparr>"

text \<open>A machine on which no binary is found, and one on which every lookup succeeds.\<close>

definition empty_cache :: path_cache where
  "empty_cache = \<lparr>mencoderPath = None, ffprobePath = None, flvtoolPath = None\<rparr>"

definition found_env :: sysenv where
  "found_env = \<lparr>env_var = (\<lambda>_. None), fs_exists = (\<lambda>_. True),
                 which = (\<lambda>n. Inr (''/usr/bin/'' @ n)),
                 isWindows = False, sibling = (\<lambda>d n. d @ ''/'' @ n)\<rparr>"

text \<open>
  A command with a file input and a stream input, a file output with audio and size
  filters, a stream output, an output with an empty path and an output without a target;
  its option arrays sit at the start of the store.
\<close>

definition sample_heap :: heap where
  "sample_heap =
     [[Str ''-fps'', Num 25], [], [Str ''-quiet''], [],
      [Str ''-oac'', Str ''mp3lame''], [Str ''volume=2'', Str ''pan=1''],
      [Str ''-ovc'', Str ''lavc''], [], [Str ''scale=320:240''], [Str ''-of'', Str ''avi''],
      []]"

definition sample_output :: cmd_output where
  "sample_output =
     \<lparr>out_target = Some (File ''out.avi''), isFile = True, flvmeta = False,
      audio = 4, audioFilters = 5, video = 6, videoFilters = 7, sizeFilters = 8,
      out_options = 9\<rparr>"

definition bare_output :: cmd_output where
  "bare_output =
     \<lparr>out_target = None, isFile = False, flvmeta = False,
      audio = 10, audioFilters = 10, video = 10, videoFilters = 10, sizeFilters = 10,
      out_options = 10\<rparr>"

definition stream_output :: cmd_output where
  "stream_output =
     \<lparr>out_target = Some Stream, isFile = False, flvmeta = False,
      audio = 10, audioFilters = 10, video = 10, videoFilters = 10, sizeFilters = 10,
      out_options = 9\<rparr>"

definition empty_output :: cmd_output where
  "empty_output =
     \<lparr>out_target = Some (File []), isFile = True, flvmeta = False,
      audio = 10, audioFilters = 10, video = 10, videoFilters = 10, sizeFilters = 10,
      out_options = 10\<rparr>"

definition sample_command :: command where
  "sample_command =
     \<lparr>inputs = [\<lparr>in_source = SrcString ''a.png'', in_options = 0\<rparr>,
                \<lparr>in_source = SrcStream, in_options = 1\<rparr>],
      outputs = [sample_output, stream_output, empty_output, bare_output],
      global = 2, complexFilters = 3\<rparr>"

definition sample_mfs :: "jsval list \<Rightarrow> string + jsval list" where
  "sample_mfs specs = Inr specs"

text \<open>Spawn options without and with captures, and a world in which nothing has run yet.\<close>

definition plain_options :: spawn_options where
  "plain_options = \<lparr>niceness = None, captureStdout = False, captureStderr = False\<rparr>"

definition nice_options :: spawn_options where
  "nice_options = \<lparr>niceness = Some 5, captureStdout = False, captureStderr = False\<rparr>"

definition capture_options :: spawn_options where
  "capture_options = \<lparr>niceness = None, captureStdout = True, captureStderr = True\<rparr>"

definition sample_world :: world where
  "sample_world = \<lparr>cache = empty_cache, arrays = sample_heap, procs = []\<rparr>"

text \<open>
  Commands for \<open>run\<close> over a store of two arrays: one writing a file under a timeout, one
  whose two outputs ask for a metadata rewrite, and one whose only output has no target.
\<close>

definition tiny_heap :: heap where "tiny_heap = [[], [Str ''-quiet'']]"

definition tiny_world :: world where
  "tiny_world = \<lparr>cache = empty_cache, arrays = tiny_heap, procs = []\<rparr>"

definition file_output :: "string \<Rightarrow> bool \<Rightarrow> cmd_output" where
  "file_output p flv =
     \<lparr>out_target = Some (File p), isFile = True, flvmeta = flv,
      audio = 0, audioFilters = 0, video = 0, videoFilters = 0, sizeFilters = 0,
      out_options = 0\<rparr>"

definition file_command :: run_command where
  "file_command =
     \<lparr>inputs = [\<lparr>in_source = SrcString ''a.png'', in_options = 0\<rparr>],
      outputs = [file_output ''a.avi'' False],
      global = 1, complexFilters = 0, opt_niceness = 0, opt_timeout = Some 5\<rparr>"

definition flv_command :: run_command where
  "flv_command =
     \<lparr>inputs = [\<lparr>in_source = SrcString ''a.png'', in_options = 0\<rparr>],
      outputs = [file_output ''a.flv'' True, file_output ''b.flv'' True],
      global = 1, complexFilters = 0, opt_niceness = 0, opt_timeout = None\<rparr>"

definition bare_command :: run_command where
  "bare_command =
     \<lparr>inputs = [\<lparr>in_source = SrcString ''a.png'', in_options = 0\<rparr>],
      outputs = [bare_output],
      global = 1, complexFilters = 0, opt_niceness = 0, opt_timeout = None\<rparr>"

definition sample_utils :: utils where
  "sample_utils =
     \<lparr>makeFilterStrings = sample_mfs, extractProgress = (\<lambda>text d. []),
      codecBanner = (\<lambda>text. if prefix ''VIDEO'' text then Some ''h264'' else None),
      extractError = (\<lambda>text. text)\<rparr>"

section \<open>Priority control\<close>

text \<open>
  With a logger attached the rest of \<open>renice\<close> does what is expected of it: the value is
  clamped and stored, and the warning is recorded exactly for a value out of range.
\<close>

lemma renice_with_logger:
  assumes "\<not> isWindows env" and "logger c = Some l" and "mencoderProc c = None"
  shows "renice env (Some n) c =
           Inr (c\<lparr>logger :=
                    Some (l @ (if n < - 20 \<or> 20 < n
                               then [Warn (''Invalid niceness value: '' @ string_of_int n @
                                           '', must be between -20 and 20'')]
                               else [])),
                  options_niceness := min 20 (max (- 20) n)\<rparr>)"
  using assms by (simp add: renice_def log_to_def Let_def)

lemma renice_in_range:
  assumes "\<not> isWindows env" and "- 20 \<le> n" and "n \<le> 20" and "mencoderProc c = None"
  shows "renice env (Some n) c = Inr (c\<lparr>options_niceness := n\<rparr>)"
  using assms by (simp add: renice_def Let_def)

lemma renice_logged_example:
  "renice posix_env (Some 999) idle_ctl =
     Inr (idle_ctl\<lparr>logger := Some [Warn (''Invalid niceness value: '' @ string_of_int 999 @
                                         '', must be between -20 and 20'')],
                    options_niceness := 20\<rparr>)"
  using renice_with_logger [of posix_env idle_ctl "[]" 999]
  by (simp add: posix_env_def idle_ctl_def)

text \<open>
  C8. On a command as the constructor builds it, \<open>renice\<close> does not clamp a value out of
  range: such a command has no logger, so for 999 and for -999 the call of
  \<open>this.logger.warn\<close> throws a \<open>TypeError\<close> on a platform other than Windows, before the
  clamped value is stored. No warning is logged and the niceness of the command stays
  what the constructor stored, 0.
\<close>

theorem renice_out_of_range_throws:
  "renice posix_env (Some 999) (MencoderCommand None None) = Inl (Error ''TypeError'')
   \<and> renice posix_env (Some (- 999)) (MencoderCommand None None) = Inl (Error ''TypeError'')
   \<and> options_niceness (MencoderCommand None None) = 0"
  by (simp add: renice_def log_to_def MencoderCommand_def posix_env_def)

section \<open>The path cache\<close>

lemma getMencoderPath_cached:
  "getMencoderPath env c = (Inr p, c') \<Longrightarrow> mencoderPath c' = Some p"
  by (auto simp: getMencoderPath_def split: option.splits sum.splits)

lemma getMencoderPath_others:
  "getMencoderPath env c = (r, c') \<Longrightarrow>
   ffprobePath c' = ffprobePath c \<and> flvtoolPath c' = flvtoolPath c"
  by (auto simp: getMencoderPath_def split: option.splits sum.splits)

lemma getFfprobePath_cached:
  "getFfprobePath env c = (Inr p, c') \<Longrightarrow> ffprobePath c' = Some p"
  by (auto simp: getFfprobePath_def Let_def
      split: option.splits sum.splits if_splits prod.splits)

lemma getFlvtoolPath_cached:
  "getFlvtoolPath env c = (Inr p, c') \<Longrightarrow> flvtoolPath c' = Some p"
  by (auto simp: getFlvtoolPath_def Let_def split: option.splits sum.splits)

lemma getMencoderPath_hit: "mencoderPath c = Some p \<Longrightarrow> getMencoderPath env c = (Inr p, c)"
  by (simp add: getMencoderPath_def)

lemma getFfprobePath_hit: "ffprobePath c = Some p \<Longrightarrow> getFfprobePath env c = (Inr p, c)"
  by (simp add: getFfprobePath_def)

lemma getFlvtoolPath_hit: "flvtoolPath c = Some p \<Longrightarrow> getFlvtoolPath env c = (Inr p, c)"
  by (simp add: getFlvtoolPath_def)

text \<open>
  C9. Once \<open>_getMencoderPath\<close>, \<open>_getFfprobePath\<close> or \<open>_getFlvtoolPath\<close> has completed
  with a path, every later call returns that same path and leaves the cache as it is,
  whatever the environment variables, the file system and the search path have become:
  the result does not depend on the environment of the later call. This includes the
  empty path stored after a lookup that found nothing. After \<open>_forgetPaths\<close> the three
  keys are absent again, so the next call looks the binary up afresh.
\<close>

theorem path_lookup_cached:
  "(getMencoderPath env c = (Inr p, c') \<longrightarrow> getMencoderPath env' c' = (Inr p, c'))
   \<and> (getFfprobePath env c = (Inr p, c') \<longrightarrow> getFfprobePath env' c' = (Inr p, c'))
   \<and> (getFlvtoolPath env c = (Inr p, c') \<longrightarrow> getFlvtoolPath env' c' = (Inr p, c'))
   \<and> (mencoderPath c = None \<and> which env ''mencoder'' = Inr [] \<and> env_path env ''MENCODER_PATH'' = []
        \<longrightarrow> getMencoderPath env' (snd (getMencoderPath env c)) = (Inr [], c\<lparr>mencoderPath := Some []\<rparr>))
   \<and> mencoderPath (forgetPaths c') = None
   \<and> ffprobePath (forgetPaths c') = None
   \<and> flvtoolPath (forgetPaths c') = None
   \<and> fst (getMencoderPath env' (forgetPaths c')) =
       or_which env' (env_path env' ''MENCODER_PATH'') ''mencoder''"
proof -
  have "fst (getMencoderPath env' (forgetPaths c')) =
       or_which env' (env_path env' ''MENCODER_PATH'') ''mencoder''"
    by (simp add: getMencoderPath_def forgetPaths_def split: sum.splits)
  moreover have "mencoderPath c = None \<and> which env ''mencoder'' = Inr []
        \<and> env_path env ''MENCODER_PATH'' = []
        \<longrightarrow> getMencoderPath env' (snd (getMencoderPath env c)) = (Inr [], c\<lparr>mencoderPath := Some []\<rparr>)"
    by (simp add: getMencoderPath_def or_which_def)
  ultimately show ?thesis
    by (auto simp: getMencoderPath_hit getFfprobePath_hit getFlvtoolPath_hit forgetPaths_def
        dest: getMencoderPath_cached getFfprobePath_cached getFlvtoolPath_cached)
qed

text \<open>
  On a machine without the binaries the three lookups store the empty path; moved to a
  machine that has them, the calls still answer with the empty path.
\<close>

theorem path_lookup_cached_witness:
  "getMencoderPath posix_env empty_cache = (Inr [], empty_cache\<lparr>mencoderPath := Some []\<rparr>)
   \<and> getMencoderPath found_env (empty_cache\<lparr>mencoderPath := Some []\<rparr>)
       = (Inr [], empty_cache\<lparr>mencoderPath := Some []\<rparr>)
   \<and> getMencoderPath found_env (forgetPaths (empty_cache\<lparr>mencoderPath := Some []\<rparr>))
       = (Inr ''/usr/bin/mencoder'', empty_cache\<lparr>mencoderPath := Some ''/usr/bin/mencoder''\<rparr>)
   \<and> getFlvtoolPath found_env (snd (getFlvtoolPath posix_env empty_cache)) =
       (Inr [], empty_cache\<lparr>flvtoolPath := Some []\<rparr>)
   \<and> getFfprobePath found_env (snd (getFfprobePath posix_env empty_cache)) =
       (Inr [], empty_cache\<lparr>mencoderPath := Some [], ffprobePath := Some []\<rparr>)"
proof -
  have m: "getMencoderPath posix_env empty_cache = (Inr [], empty_cache\<lparr>mencoderPath := Some []\<rparr>)"
    by (simp add: getMencoderPath_def or_which_def env_path_def posix_env_def empty_cache_def)
  have f: "getFlvtoolPath posix_env empty_cache = (Inr [], empty_cache\<lparr>flvtoolPath := Some []\<rparr>)"
    by (simp add: getFlvtoolPath_def or_which_def env_path_def posix_env_def empty_cache_def)
  have p: "getFfprobePath posix_env empty_cache =
             (Inr [], empty_cache\<lparr>mencoderPath := Some [], ffprobePath := Some []\<rparr>)"
    by (simp add: getFfprobePath_def getMencoderPath_def or_which_def env_path_def
        posix_env_def empty_cache_def)
  have g: "getMencoderPath found_env (forgetPaths (empty_cache\<lparr>mencoderPath := Some []\<rparr>))
       = (Inr ''/usr/bin/mencoder'', empty_cache\<lparr>mencoderPath := Some ''/usr/bin/mencoder''\<rparr>)"
    by (simp add: getMencoderPath_def or_which_def env_path_def found_env_def empty_cache_def
        forgetPaths_def)
  from m f p g
    path_lookup_cached [of posix_env empty_cache "[]" "empty_cache\<lparr>mencoderPath := Some []\<rparr>" found_env]
    path_lookup_cached [of posix_env empty_cache "[]" "empty_cache\<lparr>flvtoolPath := Some []\<rparr>" found_env]
    path_lookup_cached [of posix_env empty_cache "[]"
      "empty_cache\<lparr>mencoderPath := Some [], ffprobePath := Some []\<rparr>" found_env]
  show ?thesis by simp
qed

section \<open>The argument list\<close>

lemma prefix_nth: "prefix h h' \<Longrightarrow> a < length h \<Longrightarrow> h' ! a = h ! a"
  by (auto simp: prefix_def nth_append)

lemma prefix_length: "prefix h h' \<Longrightarrow> a < length h \<Longrightarrow> a < length (h' :: heap)"
  by (auto simp: prefix_def)

lemma input_args_spec:
  "args < length h \<Longrightarrow> input_refs_ok h i \<Longrightarrow> input_args args i h = (r, h') \<Longrightarrow>
   prefix h h' \<and> r < length h' \<and> h' ! r = h ! args @ spec_input_tokens h i"
  by (auto simp: input_args_def new_array_def js_concat_def Let_def nth_append
      spec_input_tokens_def input_refs_ok_def prefix_def source_string_def)

lemma input_args_prefix: "input_args args i h = (r, h') \<Longrightarrow> prefix h h'"
  by (auto simp: input_args_def new_array_def js_concat_def Let_def prefix_def)

lemma reduce_inputs_prefix: "reduce_inputs xs args h = (r, h') \<Longrightarrow> prefix h h'"
proof (induction xs arbitrary: args h)
  case Nil
  then show ?case by simp
next
  case (Cons i xs)
  obtain a1 h1 where s: "input_args args i h = (a1, h1)" by (cases "input_args args i h")
  with Cons.prems have "reduce_inputs xs a1 h1 = (r, h')" by simp
  then have "prefix h1 h'" by (rule Cons.IH)
  moreover from s have "prefix h h1" by (rule input_args_prefix)
  ultimately show ?case by (rule prefix_order.trans[rotated])
qed

lemma spec_input_tokens_mono:
  "prefix h h' \<Longrightarrow> input_refs_ok h i \<Longrightarrow> spec_input_tokens h' i = spec_input_tokens h i"
  by (simp add: spec_input_tokens_def input_refs_ok_def prefix_nth)

lemma input_refs_ok_mono: "prefix h h' \<Longrightarrow> input_refs_ok h i \<Longrightarrow> input_refs_ok h' i"
  by (auto simp: input_refs_ok_def prefix_def)

lemma reduce_inputs_spec:
  "args < length h \<Longrightarrow> list_all (input_refs_ok h) xs \<Longrightarrow> reduce_inputs xs args h = (r, h') \<Longrightarrow>
   r < length h' \<and> h' ! r = h ! args @ concat (map (spec_input_tokens h) xs)"
proof (induction xs arbitrary: args h)
  case Nil
  then show ?case by simp
next
  case (Cons i xs)
  from Cons.prems have ok: "input_refs_ok h i" and oks: "list_all (input_refs_ok h) xs" by simp_all
  obtain a1 h1 where s: "input_args args i h = (a1, h1)" by (cases "input_args args i h")
  from input_args_spec[OF Cons.prems(1) ok s]
  have p: "prefix h h1" and a1: "a1 < length h1" and c: "h1 ! a1 = h ! args @ spec_input_tokens h i"
    by simp_all
  from s Cons.prems(3) have run: "reduce_inputs xs a1 h1 = (r, h')" by simp
  have oks1: "list_all (input_refs_ok h1) xs"
    using oks input_refs_ok_mono[OF p] by (simp add: list_all_iff)
  have "r < length h' \<and> h' ! r = h1 ! a1 @ concat (map (spec_input_tokens h1) xs)"
    by (rule Cons.IH[OF a1 oks1 run])
  moreover have "map (spec_input_tokens h1) xs = map (spec_input_tokens h) xs"
    using oks spec_input_tokens_mono[OF p] by (simp add: list_all_iff)
  ultimately show ?case using c by simp
qed

lemma output_args_prefix: "output_args mfs args out h = (r, h') \<Longrightarrow> prefix h h'"
  by (auto simp: output_args_def new_array_def js_concat_def Let_def prefix_def split: sum.splits)

lemma outputArg_locator: "outputArg t = spec_locator t"
  by (cases t rule: spec_locator.cases) (simp_all add: outputArg_def)

lemma output_args_spec:
  "args < length h \<Longrightarrow> output_refs_ok h out \<Longrightarrow> filters_ok mfs h out \<Longrightarrow>
   \<exists>r h'. output_args mfs args out h = (Inr r, h') \<and>
     prefix h h' \<and> r < length h' \<and> h' ! r = h ! args @ spec_output_tokens mfs h out"
  by (auto simp: output_args_def new_array_def js_concat_def Let_def nth_append
      spec_output_tokens_def output_refs_ok_def filters_ok_def filter_arg_def prefix_def
      outputArg_locator split: sum.splits)

lemma output_args_fails:
  "\<not> filters_ok mfs h out \<Longrightarrow> \<exists>e. output_args mfs args out h = (Inl e, h)"
  by (auto simp: output_args_def filters_ok_def split: sum.splits)

lemma reduce_outputs_prefix: "reduce_outputs mfs xs args h = (r, h') \<Longrightarrow> prefix h h'"
proof (induction xs arbitrary: args h)
  case Nil
  then show ?case by simp
next
  case (Cons out xs)
  obtain a1 h1 where s: "output_args mfs args out h = (a1, h1)"
    by (cases "output_args mfs args out h")
  then have p: "prefix h h1" by (rule output_args_prefix)
  show ?case
  proof (cases a1)
    case (Inl e)
    with s Cons.prems p show ?thesis by simp
  next
    case (Inr a)
    with s Cons.prems have "reduce_outputs mfs xs a h1 = (r, h')" by simp
    then have "prefix h1 h'" by (rule Cons.IH)
    with p show ?thesis by (rule prefix_order.trans)
  qed
qed

lemma spec_output_tokens_mono:
  "prefix h h' \<Longrightarrow> output_refs_ok h out \<Longrightarrow> spec_output_tokens mfs h' out = spec_output_tokens mfs h out"
  by (simp add: spec_output_tokens_def output_refs_ok_def prefix_nth split: sum.splits)

lemma output_refs_ok_mono: "prefix h h' \<Longrightarrow> output_refs_ok h out \<Longrightarrow> output_refs_ok h' out"
  by (auto simp: output_refs_ok_def prefix_def)

lemma filters_ok_mono:
  "prefix h h' \<Longrightarrow> output_refs_ok h out \<Longrightarrow> filters_ok mfs h' out = filters_ok mfs h out"
  by (simp add: filters_ok_def output_refs_ok_def prefix_nth)

lemma reduce_outputs_spec:
  "args < length h \<Longrightarrow> list_all (output_refs_ok h) xs \<Longrightarrow> list_all (filters_ok mfs h) xs \<Longrightarrow>
   \<exists>r h'. reduce_outputs mfs xs args h = (Inr r, h') \<and>
      r < length h' \<and> h' ! r = h ! args @ concat (map (spec_output_tokens mfs h) xs)"
proof (induction xs arbitrary: args h)
  case Nil
  then show ?case by simp
next
  case (Cons out xs)
  from Cons.prems have ok: "output_refs_ok h out" and oks: "list_all (output_refs_ok h) xs"
    and f: "filters_ok mfs h out" and fs: "list_all (filters_ok mfs h) xs" by simp_all
  from output_args_spec[OF Cons.prems(1) ok f]
  obtain a1 h1 where s: "output_args mfs args out h = (Inr a1, h1)"
    and p: "prefix h h1" and a1: "a1 < length h1"
    and c: "h1 ! a1 = h ! args @ spec_output_tokens mfs h out" by blast
  have oks1: "list_all (output_refs_ok h1) xs"
    using oks output_refs_ok_mono[OF p] by (simp add: list_all_iff)
  have fs1: "list_all (filters_ok mfs h1) xs"
    using oks fs filters_ok_mono[OF p] by (simp add: list_all_iff)
  from Cons.IH[OF a1 oks1 fs1]
  obtain r h' where run: "reduce_outputs mfs xs a1 h1 = (Inr r, h')" and r: "r < length h'"
    and c': "h' ! r = h1 ! a1 @ concat (map (spec_output_tokens mfs h1) xs)" by blast
  have "map (spec_output_tokens mfs h1) xs = map (spec_output_tokens mfs h) xs"
    using oks spec_output_tokens_mono[OF p] by (simp add: list_all_iff)
  with s run r c c' show ?case by simp
qed


lemma getArguments_prefix: "getArguments mfs c h = (res, h') \<Longrightarrow> prefix h h'"
proof -
  assume g: "getArguments mfs c h = (res, h')"
  obtain ins h2 where i: "reduce_inputs (inputs c) (Suc (length h)) (h @ [[], []]) = (ins, h2)"
    by (cases "reduce_inputs (inputs c) (Suc (length h)) (h @ [[], []])")
  obtain outs h4 where out: "reduce_outputs mfs (outputs c) (length h2) (h2 @ [[]]) = (outs, h4)"
    by (cases "reduce_outputs mfs (outputs c) (length h2) (h2 @ [[]])")
  have p1: "prefix h (h @ [[], []])" by simp
  have p2: "prefix (h @ [[], []]) h2" using i by (rule reduce_inputs_prefix)
  have p3: "prefix h2 (h2 @ [[]])" by simp
  have p4: "prefix (h2 @ [[]]) h4" using out by (rule reduce_outputs_prefix)
  have p: "prefix h h4" using p1 p2 p3 p4 by (meson prefix_order.trans)
  from g i out have "h' = h4 \<or> (\<exists>x. h' = h4 @ [x])"
    by (auto simp: getArguments_def new_array_def js_concat_def Let_def split: sum.splits)
  with p show ?thesis by (auto simp: prefix_def)
qed

lemma getArguments_spec:
  assumes ok: "command_refs_ok h c" and fs: "list_all (filters_ok mfs h) (outputs c)"
  shows "\<exists>r h'. getArguments mfs c h = (Inr r, h') \<and> length h \<le> r \<and> r < length h' \<and>
           h' ! r = spec_arguments mfs c h"
proof -
  let ?h1 = "h @ [[], []]"
  obtain ins h2 where i: "reduce_inputs (inputs c) (Suc (length h)) ?h1 = (ins, h2)"
    by (cases "reduce_inputs (inputs c) (Suc (length h)) ?h1")
  have p1: "prefix h ?h1" by simp
  have p2: "prefix ?h1 h2" using i by (rule reduce_inputs_prefix)
  have p12: "prefix h h2" using p1 p2 by (rule prefix_order.trans)
  have p3: "prefix h2 (h2 @ [[]])" by simp
  have p13: "prefix h (h2 @ [[]])" using p12 p3 by (rule prefix_order.trans)
  from ok have iok: "list_all (input_refs_ok h) (inputs c)"
    and ook: "list_all (output_refs_ok h) (outputs c)"
    and gl: "global c < length h" and cf: "complexFilters c < length h"
    by (simp_all add: command_refs_ok_def)
  have iok1: "list_all (input_refs_ok ?h1) (inputs c)"
    using iok input_refs_ok_mono[OF p1] by (simp add: list_all_iff)
  have "ins < length h2 \<and> h2 ! ins = ?h1 ! Suc (length h) @ concat (map (spec_input_tokens ?h1) (inputs c))"
    by (rule reduce_inputs_spec[OF _ iok1 i]) simp
  moreover have "map (spec_input_tokens ?h1) (inputs c) = map (spec_input_tokens h) (inputs c)"
    using iok spec_input_tokens_mono[OF p1] by (simp add: list_all_iff)
  moreover have "?h1 ! Suc (length h) = []" by (simp add: nth_append)
  ultimately have ins: "ins < length h2" "h2 ! ins = concat (map (spec_input_tokens h) (inputs c))"
    by simp_all
  have ook3: "list_all (output_refs_ok (h2 @ [[]])) (outputs c)"
    using ook output_refs_ok_mono[OF p13] by (simp add: list_all_iff)
  have fs3: "list_all (filters_ok mfs (h2 @ [[]])) (outputs c)"
    using ook fs filters_ok_mono[OF p13] by (simp add: list_all_iff)
  have "length h2 < length (h2 @ [[]])" by simp
  from reduce_outputs_spec[OF this ook3 fs3]
  obtain outs h4 where out: "reduce_outputs mfs (outputs c) (length h2) (h2 @ [[]]) = (Inr outs, h4)"
    and o1: "outs < length h4"
    and o2: "h4 ! outs = (h2 @ [[]]) ! length h2 @ concat (map (spec_output_tokens mfs (h2 @ [[]])) (outputs c))"
    by blast
  have "map (spec_output_tokens mfs (h2 @ [[]])) (outputs c) = map (spec_output_tokens mfs h) (outputs c)"
    using ook spec_output_tokens_mono[OF p13] by (simp add: list_all_iff)
  with o2 have outs: "h4 ! outs = concat (map (spec_output_tokens mfs h) (outputs c))" by simp
  have p4: "prefix (h2 @ [[]]) h4" using out by (rule reduce_outputs_prefix)
  have p24: "prefix h2 h4" using p3 p4 by (rule prefix_order.trans)
  have p14: "prefix h h4" using p12 p24 by (rule prefix_order.trans)
  have p04: "prefix ?h1 h4" using p2 p24 by (rule prefix_order.trans)
  have b: "h4 ! length h = []" using prefix_nth[OF p04, of "length h"] by (simp add: nth_append)
  have i4: "h4 ! ins = concat (map (spec_input_tokens h) (inputs c))"
    using prefix_nth[OF p24 ins(1)] ins(2) by simp
  have g4: "h4 ! global c = h ! global c" using prefix_nth[OF p14 gl] .
  have c4: "h4 ! complexFilters c = h ! complexFilters c" using prefix_nth[OF p14 cf] .
  have len: "length h \<le> length h4" using p14 by (auto simp: prefix_def)
  have "getArguments mfs c h =
          (Inr (length h4), h4 @ [h4 ! length h @ h4 ! ins @ h4 ! global c @ h4 ! complexFilters c @ h4 ! outs])"
    using i out by (simp add: getArguments_def new_array_def js_concat_def Let_def)
  with b i4 g4 c4 outs len show ?thesis
    by (simp add: spec_arguments_def)
qed

text \<open>
  C3. \<open>_getArguments\<close> returns a newly allocated array and changes no array that existed
  before the call, so the command's own option arrays are as they were. Provided
  \<open>makeFilterStrings\<close> accepts the size filters of every output, the array returned holds:
  for each input in order its option tokens and then its locator (\<open>mf://\<close> before the
  source string, or before the placeholder \<open>pipe:0\<close> for a stream); the global tokens;
  the complex-filter tokens; and for each output in order its audio option tokens, the
  audio filters joined by commas into one token behind \<open>-af\<close> only when there are any, its
  video option tokens, the video and size filters joined into one token behind \<open>-vf\<close> only
  when there are any, its output option tokens, and last \<open>-o\<close> with the file path, the
  placeholder \<open>pipe:1\<close> for a stream, or nothing when no target is set.
\<close>

theorem getArguments_fixed_order:
  "prefix h (snd (getArguments mfs c h))
   \<and> (command_refs_ok h c \<and> list_all (filters_ok mfs h) (outputs c) \<longrightarrow>
        arguments_of (getArguments mfs c h) = Some (spec_arguments mfs c h)
        \<and> (\<exists>r. fst (getArguments mfs c h) = Inr r \<and> length h \<le> r))"
proof -
  have "prefix h (snd (getArguments mfs c h))"
    by (rule getArguments_prefix[of mfs c h "fst (getArguments mfs c h)"]) simp
  moreover have "arguments_of (getArguments mfs c h) = Some (spec_arguments mfs c h)
        \<and> (\<exists>r. fst (getArguments mfs c h) = Inr r \<and> length h \<le> r)"
    if "command_refs_ok h c" "list_all (filters_ok mfs h) (outputs c)"
    using getArguments_spec[OF that] by (auto simp: arguments_of_def)
  ultimately show ?thesis by blast
qed

text \<open>
  A file input and a stream input; a file output with audio and size filters, a stream
  output, an output whose path is empty and an output without a target.
\<close>

theorem getArguments_fixed_order_witness:
  "command_refs_ok sample_heap sample_command
   \<and> list_all (filters_ok sample_mfs sample_heap) (outputs sample_command)
   \<and> prefix sample_heap (snd (getArguments sample_mfs sample_command sample_heap))
   \<and> arguments_of (getArguments sample_mfs sample_command sample_heap) =
       Some [Str ''-fps'', Num 25, Str ''mf://a.png'', Str ''mf://pipe:0'', Str ''-quiet'',
             Str ''-oac'', Str ''mp3lame'', Str ''-af'', Str ''volume=2,pan=1'',
             Str ''-ovc'', Str ''lavc'', Str ''-vf'', Str ''scale=320:240'',
             Str ''-of'', Str ''avi'', Str ''-o'', Str ''out.avi'',
             Str ''-of'', Str ''avi'', Str ''pipe:1'']"
proof -
  have ok: "command_refs_ok sample_heap sample_command"
    by (simp add: command_refs_ok_def sample_command_def sample_heap_def input_refs_ok_def
        output_refs_ok_def sample_output_def stream_output_def empty_output_def bare_output_def)
  have fs: "list_all (filters_ok sample_mfs sample_heap) (outputs sample_command)"
    by (simp add: filters_ok_def sample_command_def sample_mfs_def)
  have v: "spec_arguments sample_mfs sample_command sample_heap =
       [Str ''-fps'', Num 25, Str ''mf://a.png'', Str ''mf://pipe:0'', Str ''-quiet'',
             Str ''-oac'', Str ''mp3lame'', Str ''-af'', Str ''volume=2,pan=1'',
             Str ''-ovc'', Str ''lavc'', Str ''-vf'', Str ''scale=320:240'',
             Str ''-of'', Str ''avi'', Str ''-o'', Str ''out.avi'',
             Str ''-of'', Str ''avi'', Str ''pipe:1'']"
    by (simp add: spec_arguments_def spec_input_tokens_def spec_output_tokens_def
        sample_command_def sample_heap_def sample_mfs_def sample_output_def stream_output_def
        empty_output_def bare_output_def)
  from ok fs v getArguments_fixed_order [of sample_heap sample_mfs sample_command]
  show ?thesis by simp
qed

section \<open>The supervisor\<close>

lemma sup_init_state: "sup_init options = sup_state options False False False None [] []"
  by (simp add: sup_init_def sup_state_def)

lemma sup_handle_state:
  "orderly x oc ec (ev # evs) \<Longrightarrow>
   sup_handle options ev (sup_state options x oc ec e a b) =
     (case ev of
        ProcExit code signal \<Rightarrow>
          (sup_state options True oc ec (case exit_err code signal of None \<Rightarrow> e | Some v \<Rightarrow> Some v) a b,
           if waiting options True oc ec then []
           else [EndCB (case exit_err code signal of None \<Rightarrow> e | Some v \<Rightarrow> Some v)
                   (if captureStdout options then Text a else Null)
                   (if captureStderr options then Text b else Null)])
      | StdoutData d \<Rightarrow>
          (sup_state options x oc ec e (if captureStdout options then a @ d else a) b, [])
      | StdoutClose \<Rightarrow>
          (sup_state options x True ec e a b,
           if captureStdout options \<and> \<not> waiting options x True ec
           then [EndCB e (Text a) (if captureStderr options then Text b else Null)] else [])
      | StderrData d \<Rightarrow>
          (sup_state options x oc ec e a (if captureStderr options then b @ d else b), [])
      | StderrClose \<Rightarrow>
          (sup_state options x oc True e a b,
           if captureStderr options \<and> \<not> waiting options x oc True
           then [EndCB e (if captureStdout options then Text a else Null) (Text b)] else []))"
  by (cases ev)
    (auto simp: sup_state_def handleExit_def waiting_def Let_def split: option.splits)


lemma orderly_no_exit: "orderly True oc ec evs \<Longrightarrow> \<not> list_ex is_exit evs"
proof (induction evs arbitrary: oc ec)
  case Nil
  then show ?case by simp
next
  case (Cons ev evs)
  then show ?case by (cases ev) auto
qed

lemma orderly_stdout_closed:
  "orderly x True ec evs \<Longrightarrow> stdout_chunks evs = [] \<and> StdoutClose \<notin> set evs"
proof (induction evs arbitrary: x ec)
  case Nil
  then show ?case by simp
next
  case (Cons ev evs)
  then show ?case by (cases ev) auto
qed

lemma orderly_stderr_closed:
  "orderly x oc True evs \<Longrightarrow> stderr_chunks evs = [] \<and> StderrClose \<notin> set evs"
proof (induction evs arbitrary: x oc)
  case Nil
  then show ?case by simp
next
  case (Cons ev evs)
  then show ?case by (cases ev) auto
qed

lemma sup_run_calls:
  "orderly x oc ec evs \<Longrightarrow> (\<not> x \<Longrightarrow> e = None) \<Longrightarrow>
   snd (sup_run options evs (sup_state options x oc ec e a b)) =
     (if completes options x oc ec evs
      then [EndCB (if x then e else exit_error evs)
              (if captureStdout options then Text (a @ stdout_chunks evs) else Null)
              (if captureStderr options then Text (b @ stderr_chunks evs) else Null)]
      else [])"
proof (induction evs arbitrary: x oc ec e a b)
  case Nil
  then show ?case by (auto simp: completes_def waiting_def)
next
  case (Cons ev evs)
  note h = sup_handle_state[OF Cons.prems(1), of options e a b]
  show ?case
  proof (cases ev)
    case (ProcError err)
    with Cons.prems show ?thesis by simp
  next
    case (ProcExit code signal)
    with Cons.prems have x: "\<not> x" and o: "orderly True oc ec evs" and e: "e = None" by simp_all
    let ?e = "case exit_err code signal of None \<Rightarrow> e | Some v \<Rightarrow> Some v"
    have ee: "?e = exit_err code signal" using e by (simp split: option.splits)
    note ih = Cons.IH[OF o, of ?e a b]
    note ne = orderly_no_exit[OF o]
    show ?thesis
    proof (cases "waiting options True oc ec")
      case True
      with h ih ProcExit x ee show ?thesis
        by (auto simp: completes_def waiting_def split: prod.splits)
    next
      case False
      then have oc: "captureStdout options \<Longrightarrow> oc" and ec: "captureStderr options \<Longrightarrow> ec"
        by (auto simp: waiting_def)
      have c1: "captureStdout options \<Longrightarrow> stdout_chunks evs = []"
        using orderly_stdout_closed[of True ec evs] o oc by simp
      have c2: "captureStderr options \<Longrightarrow> stderr_chunks evs = []"
        using orderly_stderr_closed[of True oc evs] o ec by simp
      from False h ih ProcExit x ee c1 c2 show ?thesis
        by (auto simp: completes_def waiting_def split: prod.splits)
    qed
  next
    case (StdoutData d)
    with Cons.prems have o: "orderly x oc ec evs" and noc: "\<not> oc" by auto
    note ih = Cons.IH[OF o Cons.prems(2), of "if captureStdout options then a @ d else a" b]
    from h ih StdoutData noc show ?thesis
      by (auto simp: completes_def waiting_def split: prod.splits)
  next
    case StdoutClose
    with Cons.prems have o: "orderly x True ec evs" and noc: "\<not> oc" by auto
    note ih = Cons.IH[OF o Cons.prems(2), of a b]
    note cl = orderly_stdout_closed[OF o]
    show ?thesis
    proof (cases "waiting options x True ec")
      case True
      with h ih StdoutClose noc cl show ?thesis
        by (auto simp: completes_def waiting_def split: prod.splits)
    next
      case False
      then have x: x and ec: "captureStderr options \<Longrightarrow> ec" by (auto simp: waiting_def)
      have c2: "captureStderr options \<Longrightarrow> stderr_chunks evs = []"
        using orderly_stderr_closed[of x True evs] o ec by simp
      from False h ih StdoutClose noc cl x c2 show ?thesis
        by (auto simp: completes_def waiting_def split: prod.splits)
    qed
  next
    case (StderrData d)
    with Cons.prems have o: "orderly x oc ec evs" and nec: "\<not> ec" by auto
    note ih = Cons.IH[OF o Cons.prems(2), of a "if captureStderr options then b @ d else b"]
    from h ih StderrData nec show ?thesis
      by (auto simp: completes_def waiting_def split: prod.splits)
  next
    case StderrClose
    with Cons.prems have o: "orderly x oc True evs" and nec: "\<not> ec" by auto
    note ih = Cons.IH[OF o Cons.prems(2), of a b]
    note cl = orderly_stderr_closed[OF o]
    show ?thesis
    proof (cases "waiting options x oc True")
      case True
      with h ih StderrClose nec cl show ?thesis
        by (auto simp: completes_def waiting_def split: prod.splits)
    next
      case False
      then have x: x and oc: "captureStdout options \<Longrightarrow> oc" by (auto simp: waiting_def)
      have c1: "captureStdout options \<Longrightarrow> stdout_chunks evs = []"
        using orderly_stdout_closed[of x oc evs] o oc by simp
      from False h ih StderrClose nec cl x c1 show ?thesis
        by (auto simp: completes_def waiting_def split: prod.splits)
    qed
  qed
qed

lemma exit_err_None: "exit_err code signal = None \<longleftrightarrow> \<not> truthy_str signal \<and> \<not> truthy_int code"
  by (simp add: exit_err_def)

lemma sup_run_orderly:
  "orderly False False False evs \<Longrightarrow>
   snd (sup_run options evs (sup_init options)) =
     (if complete options evs
      then [EndCB (exit_error evs) (captured_stdout options evs) (captured_stderr options evs)]
      else [])"
  using sup_run_calls[of False False False evs None options "[]" "[]"]
  by (simp add: sup_init_state completes_def complete_def waiting_def captured_stdout_def
      captured_stderr_def)

lemma exit_error_in:
  "orderly x oc ec evs \<Longrightarrow> ProcExit code signal \<in> set evs \<Longrightarrow> exit_error evs = exit_err code signal"
proof (induction evs arbitrary: x oc ec)
  case Nil
  then show ?case by simp
next
  case (Cons ev evs)
  show ?case
  proof (cases ev)
    case (ProcExit code' signal')
    with Cons.prems have "orderly True oc ec evs" by simp
    then have "\<not> list_ex is_exit evs" by (rule orderly_no_exit)
    then have "ProcExit code signal \<notin> set evs" by (auto simp: list_ex_iff)
    with Cons.prems ProcExit show ?thesis by simp
  qed (use Cons in auto)
qed

text \<open>
  C1, the claim as stated fails. The \<open>error\<close> handler calls \<open>endCB\<close> on its own and
  nothing records that it did: a process whose handle emits \<open>error\<close> (here a signal that
  could not be delivered) and that exits afterwards has \<open>endCB\<close> invoked twice, first
  with the error and then with the result of the exit.
\<close>

theorem endCB_twice_counterexample:
  "snd (sup_run plain_options [ProcError (Error ''kill EPERM''), ProcExit (Some 0) None]
          (sup_init plain_options)) =
     [EndCB (Some (Error ''kill EPERM'')) Undefined Undefined, EndCB None Null Null]
   \<and> length (snd (sup_run plain_options [ProcError (Error ''kill EPERM''), ProcExit (Some 0) None]
          (sup_init plain_options))) \<noteq> 1"
  by (simp add: plain_options_def sup_init_def handleExit_def exit_err_def truthy_str_def
      truthy_int_def)

text \<open>
  C1, amended. In a run whose process emits no \<open>error\<close> event (it exits at most once,
  each stream closes at most once and delivers nothing after that), \<open>endCB\<close> has been
  invoked exactly once as soon as the exit and the close of every captured stream have
  all been observed, and not at all before; the call carries the error of the exit, the
  captured stdout and the captured stderr (\<open>null\<close> for a stream that is not captured). The
  error is non-null exactly when the exit came with a signal or a non-zero code. An
  \<open>error\<close> event invokes \<open>endCB\<close> with that error at once, whatever has been observed.
\<close>

theorem endCB_once_after_exit_and_closes:
  "(orderly False False False evs \<longrightarrow>
      snd (sup_run options evs (sup_init options)) =
        (if complete options evs
         then [EndCB (exit_error evs) (captured_stdout options evs) (captured_stderr options evs)]
         else []))
   \<and> (orderly False False False evs \<and> ProcExit code signal \<in> set evs \<longrightarrow>
        (exit_error evs = None \<longleftrightarrow> \<not> truthy_str signal \<and> \<not> truthy_int code))
   \<and> sup_handle options (ProcError err) s = (s, [EndCB (Some err) Undefined Undefined])"
  using sup_run_orderly[of evs options] exit_error_in[of False False False evs code signal]
  by (simp add: exit_err_None)

theorem endCB_once_after_exit_and_closes_witness:
  "orderly False False False
     [StdoutData ''ab'', ProcExit (Some 1) None, StderrData ''x'', StdoutClose, StderrClose]
   \<and> snd (sup_run capture_options
          [StdoutData ''ab'', ProcExit (Some 1) None, StderrData ''x'', StdoutClose, StderrClose]
          (sup_init capture_options)) =
       [EndCB (Some (Error ''mencoder exited with code 1'')) (Text ''ab'') (Text ''x'')]
   \<and> snd (sup_run capture_options
          [StdoutData ''ab'', ProcExit (Some 1) None, StderrData ''x'', StdoutClose]
          (sup_init capture_options)) = []"
proof -
  have o: "orderly False False False
     [StdoutData ''ab'', ProcExit (Some 1) None, StderrData ''x'', StdoutClose, StderrClose]"
    by simp
  have o': "orderly False False False
     [StdoutData ''ab'', ProcExit (Some 1) None, StderrData ''x'', StdoutClose]"
    by simp
  have one: "string_of_int 1 = ''1''"
    by (simp add: string_of_int_def string_of_nat.simps digit_char_def)
  from o o' one
    endCB_once_after_exit_and_closes [of
      "[StdoutData ''ab'', ProcExit (Some 1) None, StderrData ''x'', StdoutClose, StderrClose]"
      capture_options "Some 1" None]
    endCB_once_after_exit_and_closes [of
      "[StdoutData ''ab'', ProcExit (Some 1) None, StderrData ''x'', StdoutClose]"
      capture_options "Some 1" None]
  show ?thesis
    by (simp add: complete_def capture_options_def captured_stdout_def captured_stderr_def
        exit_err_def truthy_str_def truthy_int_def)
qed

section \<open>Spawning\<close>

lemma spawnMencoder_no_path:
  "fst (getMencoderPath env (cache w)) = Inl err \<Longrightarrow>
   spawnMencoder env args options w =
     ([EndCB (Some err) Undefined Undefined], None, w\<lparr>cache := snd (getMencoderPath env (cache w))\<rparr>)"
  by (cases "getMencoderPath env (cache w)") (simp add: spawnMencoder_def)

lemma spawnMencoder_empty_path:
  "fst (getMencoderPath env (cache w)) = Inr [] \<Longrightarrow>
   spawnMencoder env args options w =
     ([EndCB (Some (Error ''Cannot find mencoder'')) Undefined Undefined], None,
      w\<lparr>cache := snd (getMencoderPath env (cache w))\<rparr>)"
  by (cases "getMencoderPath env (cache w)") (simp add: spawnMencoder_def)

lemma spawnMencoder_spawns:
  "fst (getMencoderPath env (cache w)) = Inr p \<Longrightarrow> p \<noteq> [] \<Longrightarrow>
   \<exists>w'. spawnMencoder env args options w = ([ProcessCB (length (procs w))], Some (sup_init options), w')
        \<and> length (procs w') = Suc (length (procs w))
        \<and> take (length (procs w)) (procs w') = procs w
        \<and> sp_command (procs w' ! length (procs w)) = (if apply_niceness env options then ''nice'' else p)"
  by (cases "getMencoderPath env (cache w)") (simp add: spawnMencoder_def Let_def)

lemma sup_handle_no_processCB: "ProcessCB h \<notin> set (snd (sup_handle options ev s))"
  by (cases ev) (auto simp: handleExit_def Let_def)

lemma sup_run_no_processCB: "ProcessCB h \<notin> set (snd (sup_run options evs s))"
proof (induction evs arbitrary: s)
  case Nil
  then show ?case by simp
next
  case (Cons ev evs)
  obtain s1 c1 where h: "sup_handle options ev s = (s1, c1)" by (cases "sup_handle options ev s")
  obtain s2 c2 where r: "sup_run options evs s1 = (s2, c2)" by (cases "sup_run options evs s1")
  have "ProcessCB h \<notin> set c1" using sup_handle_no_processCB[of h options ev s] h by simp
  moreover have "ProcessCB h \<notin> set c2" using Cons.IH[of s1] r by simp
  ultimately show ?case using h r by simp
qed

text \<open>
  C5, the claim as stated fails. The binary is found and \<open>spawn\<close> returns a handle, so
  \<open>processCB\<close> is invoked with it; the process then turns out not to be executable, which
  the handle reports through its \<open>error\<close> event, and \<open>endCB\<close> gets that error. In a run
  whose spawning failed \<open>processCB\<close> was invoked all the same.
\<close>

theorem processCB_before_spawn_error_counterexample:
  "fst (spawnMencoder found_env 2 plain_options sample_world) = [ProcessCB 0]
   \<and> fst (snd (spawnMencoder found_env 2 plain_options sample_world)) = Some (sup_init plain_options)
   \<and> snd (sup_run plain_options [ProcError (Error ''spawn /usr/bin/mencoder EACCES'')]
            (sup_init plain_options)) =
       [EndCB (Some (Error ''spawn /usr/bin/mencoder EACCES'')) Undefined Undefined]"
  by (simp add: spawnMencoder_def getMencoderPath_def or_which_def env_path_def found_env_def
      sample_world_def empty_cache_def plain_options_def apply_niceness_def Let_def)

text \<open>
  C5, amended. \<open>processCB\<close> is invoked once, within the call that spawns, with the
  handle of the process just spawned, whenever the lookup of the binary yields a
  non-empty path; no event handled later invokes it, and an \<open>error\<close> event of the process
  (a spawn that failed) comes after it. It is not invoked when the lookup passes an
  error or finds nothing: \<open>endCB\<close> is invoked with the error instead and no process is
  spawned.
\<close>

theorem processCB_iff_path_resolved:
  "(fst (getMencoderPath env (cache w)) = Inr p \<and> p \<noteq> [] \<longrightarrow>
      fst (spawnMencoder env args options w) = [ProcessCB (length (procs w))]
      \<and> length (procs (snd (snd (spawnMencoder env args options w)))) = Suc (length (procs w)))
   \<and> (fst (getMencoderPath env (cache w)) = Inl err \<longrightarrow>
        fst (spawnMencoder env args options w) = [EndCB (Some err) Undefined Undefined]
        \<and> procs (snd (snd (spawnMencoder env args options w))) = procs w)
   \<and> (fst (getMencoderPath env (cache w)) = Inr [] \<longrightarrow>
        fst (spawnMencoder env args options w) =
          [EndCB (Some (Error ''Cannot find mencoder'')) Undefined Undefined]
        \<and> procs (snd (snd (spawnMencoder env args options w))) = procs w)
   \<and> ProcessCB h \<notin> set (snd (sup_run options evs s))"
  using spawnMencoder_spawns[of env w p args options]
    spawnMencoder_no_path[of env w err args options]
    spawnMencoder_empty_path[of env w args options]
    sup_run_no_processCB[of h options evs s]
  by auto

theorem processCB_iff_path_resolved_witness:
  "fst (getMencoderPath found_env (cache sample_world)) = Inr ''/usr/bin/mencoder''
   \<and> fst (spawnMencoder found_env 2 plain_options sample_world) = [ProcessCB 0]
   \<and> fst (getMencoderPath posix_env (cache sample_world)) = Inr []
   \<and> fst (spawnMencoder posix_env 2 plain_options sample_world) =
       [EndCB (Some (Error ''Cannot find mencoder'')) Undefined Undefined]
   \<and> procs (snd (snd (spawnMencoder posix_env 2 plain_options sample_world))) = []"
proof -
  have a: "fst (getMencoderPath found_env (cache sample_world)) = Inr ''/usr/bin/mencoder''"
    by (simp add: getMencoderPath_def or_which_def env_path_def found_env_def sample_world_def
        empty_cache_def)
  have b: "fst (getMencoderPath posix_env (cache sample_world)) = Inr []"
    by (simp add: getMencoderPath_def or_which_def env_path_def posix_env_def sample_world_def
        empty_cache_def)
  have c: "procs sample_world = []" by (simp add: sample_world_def)
  from a b c
    processCB_iff_path_resolved [of found_env sample_world "''/usr/bin/mencoder''" 2 plain_options]
    processCB_iff_path_resolved [of posix_env sample_world "[]" 2 plain_options]
  show ?thesis by simp
qed

section \<open>The niceness rewrite\<close>

lemma spawnMencoder_nice:
  assumes "niceness options = Some n" and "n \<noteq> 0" and "\<not> isWindows env"
    and "fst (getMencoderPath env (cache w)) = Inr p" and "p \<noteq> []"
  shows "arrays (snd (snd (spawnMencoder env args options w))) =
           (arrays w)[args := [Str ''-n'', Num n, Str p] @ arrays w ! args]"
    and "procs (snd (snd (spawnMencoder env args options w))) =
           procs w @ [\<lparr>sp_command = ''nice'',
                       sp_args = (arrays w)[args := [Str ''-n'', Num n, Str p] @ arrays w ! args] ! args\<rparr>]"
  using assms
  by (cases "getMencoderPath env (cache w)";
      simp add: spawnMencoder_def Let_def apply_niceness_def js_unshift_def)+

text \<open>
  C10. With a non-zero niceness on a platform other than Windows (and the binary
  found), \<open>_spawnMencoder\<close> changes the caller's array itself: after the call the array
  that \<open>args\<close> refers to holds \<open>-n\<close>, the niceness and the path of the binary, followed by
  all the tokens it held before, in their order; no other array is touched; and the
  process spawned is \<open>nice\<close> with exactly that argument list.
\<close>

theorem niceness_rewrites_args_in_place:
  assumes "niceness options = Some n" and "n \<noteq> 0" and "\<not> isWindows env"
    and "fst (getMencoderPath env (cache w)) = Inr p" and "p \<noteq> []"
    and "args < length (arrays w)"
  shows "arrays (snd (snd (spawnMencoder env args options w))) ! args =
           [Str ''-n'', Num n, Str p] @ arrays w ! args
       \<and> arrays (snd (snd (spawnMencoder env args options w))) ! args \<noteq> arrays w ! args
       \<and> drop 3 (arrays (snd (snd (spawnMencoder env args options w))) ! args) = arrays w ! args
       \<and> length (arrays (snd (snd (spawnMencoder env args options w)))) = length (arrays w)
       \<and> (\<forall>r. r \<noteq> args \<longrightarrow>
             arrays (snd (snd (spawnMencoder env args options w))) ! r = arrays w ! r)
       \<and> procs (snd (snd (spawnMencoder env args options w))) =
           procs w @ [\<lparr>sp_command = ''nice'',
                       sp_args = [Str ''-n'', Num n, Str p] @ arrays w ! args\<rparr>]"
  using assms(6) spawnMencoder_nice[OF assms(1-5), of args]
  by simp

theorem niceness_rewrites_args_in_place_witness:
  "niceness nice_options = Some 5 \<and> \<not> isWindows found_env
   \<and> fst (getMencoderPath found_env (cache sample_world)) = Inr ''/usr/bin/mencoder''
   \<and> arrays sample_world ! 2 = [Str ''-quiet'']
   \<and> arrays (snd (snd (spawnMencoder found_env 2 nice_options sample_world))) ! 2 =
       [Str ''-n'', Num 5, Str ''/usr/bin/mencoder'', Str ''-quiet'']
   \<and> procs (snd (snd (spawnMencoder found_env 2 nice_options sample_world))) =
       [\<lparr>sp_command = ''nice'',
         sp_args = [Str ''-n'', Num 5, Str ''/usr/bin/mencoder'', Str ''-quiet'']\<rparr>]"
proof -
  have a: "fst (getMencoderPath found_env (cache sample_world)) = Inr ''/usr/bin/mencoder''"
    by (simp add: getMencoderPath_def or_which_def env_path_def found_env_def sample_world_def
        empty_cache_def)
  have n: "niceness nice_options = Some 5" by (simp add: nice_options_def)
  have e: "\<not> isWindows found_env" by (simp add: found_env_def)
  have l: "(2::nat) < length (arrays sample_world)" by (simp add: sample_world_def sample_heap_def)
  have v: "arrays sample_world ! 2 = [Str ''-quiet'']" by (simp add: sample_world_def sample_heap_def)
  have p: "procs sample_world = []" by (simp add: sample_world_def)
  from niceness_rewrites_args_in_place [OF n _ e a _ l] a n e v p
  show ?thesis by simp
qed

section \<open>Invariants of a run\<close>

lemma terminal_Progress [simp]: "filter is_terminal (map Progress xs) = []"
  by (induction xs) auto

lemma codec_Progress [simp]: "filter is_codecData (map Progress xs) = []"
  by (induction xs) auto

lemma emitEnd_latch: "latch_inv s \<Longrightarrow> latch_inv (emitEnd err out errout s)"
  by (auto simp: latch_inv_def emitEnd_def terminal_events_def split: if_splits)

lemma emitEnd_codec: "codec_inv s \<Longrightarrow> codec_inv (emitEnd err out errout s)"
  by (auto simp: codec_inv_def emitEnd_def split: if_splits)


lemma emitEnd_settled: "settled (emitEnd err out errout s)"
  by (simp add: emitEnd_def settled_def)

lemma run_endCB_latch: "latch_inv s \<Longrightarrow> latch_inv (run_endCB env u err s)"
  by (auto simp: run_endCB_def Let_def latch_inv_def emitEnd_def terminal_events_def
      split: option.splits sum.splits prod.splits if_splits)

lemma run_endCB_codec: "codec_inv s \<Longrightarrow> codec_inv (run_endCB env u err s)"
  by (auto simp: run_endCB_def Let_def codec_inv_def emitEnd_def
      split: option.splits sum.splits prod.splits if_splits)

lemma run_endCB_settled: "settled (run_endCB env u err s)"
  by (auto simp: run_endCB_def Let_def settled_def emitEnd_def
      split: option.splits sum.splits prod.splits)

lemma flv_done_latch: "latch_inv s \<Longrightarrow> latch_inv (flv_done err s)"
  by (auto simp: flv_done_def Let_def latch_inv_def emitEnd_def terminal_events_def
      split: if_splits)

lemma flv_done_codec: "codec_inv s \<Longrightarrow> codec_inv (flv_done err s)"
  by (auto simp: flv_done_def Let_def codec_inv_def emitEnd_def split: if_splits)


lemma end_calls_latch: "latch_inv s \<Longrightarrow> latch_inv (end_calls env u calls s)"
  by (induction env u calls s rule: end_calls.induct) (simp_all add: run_endCB_latch)

lemma end_calls_codec: "codec_inv s \<Longrightarrow> codec_inv (end_calls env u calls s)"
  by (induction env u calls s rule: end_calls.induct) (simp_all add: run_endCB_codec)


lemma on_stdout_data_latch: "latch_inv s \<Longrightarrow> latch_inv (on_stdout_data u d s)"
  by (auto simp: on_stdout_data_def Let_def latch_inv_def terminal_events_def split: if_splits)

lemma on_stdout_data_codec: "codec_inv s \<Longrightarrow> codec_inv (on_stdout_data u d s)"
  by (auto simp: on_stdout_data_def Let_def codec_inv_def split: if_splits)


lemma on_stderr_data_latch: "latch_inv s \<Longrightarrow> latch_inv (on_stderr_data u d s)"
  by (auto simp: on_stderr_data_def extractCodecData_def Let_def latch_inv_def terminal_events_def
      split: option.splits if_splits)

lemma on_stderr_data_codec: "codec_inv s \<Longrightarrow> codec_inv (on_stderr_data u d s)"
  by (auto simp: on_stderr_data_def extractCodecData_def Let_def codec_inv_def
      split: option.splits if_splits)


lemma sup_update_inv:
  "latch_inv (s\<lparr>sup := x\<rparr>) = latch_inv s"
  "codec_inv (s\<lparr>sup := x\<rparr>) = codec_inv s"
  "settled (s\<lparr>sup := x\<rparr>) = settled s"
  by (simp_all add: latch_inv_def codec_inv_def settled_def)

lemma on_proc_preserves:
  assumes upd: "\<And>s x. P s \<Longrightarrow> P (s\<lparr>sup := Some x\<rparr>)"
    and calls: "\<And>s calls. P s \<Longrightarrow> P (end_calls env u calls s)"
    and out: "\<And>d s. P s \<Longrightarrow> P (on_stdout_data u d s)"
    and err: "\<And>d s. P s \<Longrightarrow> P (on_stderr_data u d s)"
    and s: "P s"
  shows "P (on_proc env u e s)"
proof (cases "sup s")
  case None
  with s show ?thesis by (simp add: on_proc_def)
next
  case (Some sp)
  obtain sp' cs where h: "sup_handle (sup_options s) e sp = (sp', cs)"
    by (cases "sup_handle (sup_options s) e sp")
  let ?s1 = "end_calls env u cs (s\<lparr>sup := Some sp'\<rparr>)"
  have p1: "P ?s1" using s by (intro calls upd)
  have "on_proc env u e s =
          (if crashed ?s1 \<noteq> None then ?s1
           else (case e of StdoutData d \<Rightarrow> on_stdout_data u d ?s1
                 | StderrData d \<Rightarrow> on_stderr_data u d ?s1 | _ \<Rightarrow> ?s1))"
    using Some h by (simp add: on_proc_def Let_def)
  with p1 out[OF p1] err[OF p1] show ?thesis by (cases e) simp_all
qed

lemma on_proc_latch: "latch_inv s \<Longrightarrow> latch_inv (on_proc env u e s)"
  by (rule on_proc_preserves[where P = latch_inv])
    (simp_all add: sup_update_inv end_calls_latch on_stdout_data_latch on_stderr_data_latch)

lemma on_proc_codec: "codec_inv s \<Longrightarrow> codec_inv (on_proc env u e s)"
  by (rule on_proc_preserves[where P = codec_inv])
    (simp_all add: sup_update_inv end_calls_codec on_stdout_data_codec on_stderr_data_codec)


lemma plain_update_inv:
  "latch_inv (kill_proc s) = latch_inv s"
  "codec_inv (kill_proc s) = codec_inv s"
  "settled (kill_proc s) = settled s"
  "latch_inv (s\<lparr>rs_log := l\<rparr>) = latch_inv s"
  "codec_inv (s\<lparr>rs_log := l\<rparr>) = codec_inv s"
  "settled (s\<lparr>rs_log := l\<rparr>) = settled s"
  "latch_inv (s\<lparr>kill_timers := k\<rparr>) = latch_inv s"
  "codec_inv (s\<lparr>kill_timers := k\<rparr>) = codec_inv s"
  "settled (s\<lparr>kill_timers := k\<rparr>) = settled s"
  "latch_inv (s\<lparr>progress_listeners := k\<rparr>) = latch_inv s"
  "codec_inv (s\<lparr>progress_listeners := k\<rparr>) = codec_inv s"
  "settled (s\<lparr>progress_listeners := k\<rparr>) = settled s"
  "latch_inv (s\<lparr>codecData_listeners := k\<rparr>) = latch_inv s"
  "codec_inv (s\<lparr>codecData_listeners := k\<rparr>) = codec_inv s"
  "settled (s\<lparr>codecData_listeners := k\<rparr>) = settled s"
  "latch_inv (s\<lparr>duration := i\<rparr>) = latch_inv s"
  "codec_inv (s\<lparr>duration := i\<rparr>) = codec_inv s"
  "settled (s\<lparr>duration := i\<rparr>) = settled s"
  by (simp_all add: latch_inv_def codec_inv_def settled_def kill_proc_def)

lemma run_step_latch: "latch_inv s \<Longrightarrow> latch_inv (run_step env u ev s)"
  by (cases ev)
    (auto simp: run_step_def plain_update_inv
      intro!: on_proc_latch flv_done_latch emitEnd_latch
      split: option.splits)

lemma run_step_codec: "codec_inv s \<Longrightarrow> codec_inv (run_step env u ev s)"
  by (cases ev)
    (auto simp: run_step_def plain_update_inv
      intro!: on_proc_codec flv_done_codec emitEnd_codec
      split: option.splits)


lemma run_steps_latch: "latch_inv s \<Longrightarrow> latch_inv (run_steps env u evs s)"
  by (induction evs arbitrary: s) (simp_all add: run_step_latch)

lemma run_steps_codec: "codec_inv s \<Longrightarrow> codec_inv (run_steps env u evs s)"
  by (induction evs arbitrary: s) (simp_all add: run_step_codec)













lemma spawnMencoder_cases:
  "spawnMencoder env args options w = (calls, sp, w') \<Longrightarrow>
   (\<exists>err. calls = [EndCB (Some err) Undefined Undefined] \<and> sp = None) \<or>
   (\<exists>h. calls = [ProcessCB h] \<and> sp = Some (sup_init options))"
  by (auto simp: spawnMencoder_def Let_def split: prod.splits sum.splits if_splits)

lemma fresh_run_inv:
  "latch_inv (fresh_run w outs warns pl cl)" "no_codec (fresh_run w outs warns pl cl)"
  by (simp_all add: fresh_run_def latch_inv_def no_codec_def terminal_events_def)

lemma no_codec_update:
  "no_codec (s\<lparr>sup := x, sup_options := y\<rparr>) = no_codec s"
  "latch_inv (s\<lparr>sup := x, sup_options := y\<rparr>) = latch_inv s"
  by (simp_all add: no_codec_def latch_inv_def)

lemma emitEnd_no_codec: "no_codec s \<Longrightarrow> no_codec (emitEnd err out errout s)"
  by (auto simp: no_codec_def emitEnd_def)

lemma run_endCB_no_codec: "no_codec s \<Longrightarrow> no_codec (run_endCB env u err s)"
  by (auto simp: run_endCB_def Let_def no_codec_def emitEnd_def
      split: option.splits sum.splits prod.splits)

lemma processCB_latch: "latch_inv s \<Longrightarrow> latch_inv (processCB c args h s)"
  by (auto simp: processCB_def Let_def latch_inv_def terminal_events_def
      split: option.splits if_splits)

lemma processCB_no_codec: "no_codec s \<Longrightarrow> no_codec (processCB c args h s)"
  by (auto simp: processCB_def Let_def no_codec_def split: option.splits)

lemma processCB_live: "live s \<Longrightarrow> settled (processCB c args h s) \<or> live (processCB c args h s)"
  by (auto simp: processCB_def Let_def live_def settled_def split: option.splits)

lemma no_codec_inv: "no_codec s \<Longrightarrow> codec_inv s"
  by (simp add: no_codec_def codec_inv_def)

lemma run_began:
  assumes "run env u c pl cl w = Began s"
  shows "latch_inv s" and "no_codec s" and "settled s \<or> live s"
proof -
  from assms have op: "outputPresent c" by (auto simp: run_def split: if_splits)
  obtain res outs warns w1 where p: "prepare env u c w = (res, outs, warns, w1)"
    by (cases "prepare env u c w")
  let ?f = "fresh_run w1 outs warns pl cl"
  have "latch_inv s \<and> no_codec s \<and> (settled s \<or> live s)"
  proof (cases res)
    case (Inl err)
    with assms op p have "s = emitEnd (Some err) Undefined Undefined ?f"
      by (simp add: run_def)
    then show ?thesis
      by (simp add: emitEnd_latch emitEnd_no_codec emitEnd_settled fresh_run_inv)
  next
    case (Inr args)
    let ?o = "\<lparr>niceness = Some (opt_niceness c), captureStdout = False, captureStderr = False\<rparr>"
    obtain calls sp w2 where sm: "spawnMencoder env args ?o w1 = (calls, sp, w2)"
      by (cases "spawnMencoder env args ?o w1")
    let ?g = "(fresh_run w2 outs warns pl cl)\<lparr>sup := sp, sup_options := ?o\<rparr>"
    from assms op p Inr sm have s: "s = start_calls env u c args calls ?g"
      by (simp add: run_def Let_def)
    have g: "latch_inv ?g" "no_codec ?g" by (simp_all add: no_codec_update fresh_run_inv)
    from spawnMencoder_cases[OF sm] show ?thesis
    proof
      assume "\<exists>err. calls = [EndCB (Some err) Undefined Undefined] \<and> sp = None"
      then obtain err where "calls = [EndCB (Some err) Undefined Undefined]" by blast
      with s have "s = run_endCB env u (Some err) ?g" by simp
      with g show ?thesis
        by (simp add: run_endCB_latch run_endCB_no_codec run_endCB_settled)
    next
      assume "\<exists>h. calls = [ProcessCB h] \<and> sp = Some (sup_init ?o)"
      then obtain h where c: "calls = [ProcessCB h]" and sp: "sp = Some (sup_init ?o)" by blast
      with s have s': "s = processCB c args h ?g" by simp
      have "live ?g" using sp by (simp add: live_def)
      with s' g show ?thesis
        using processCB_live[of ?g c args h]
        by (simp add: processCB_latch processCB_no_codec)
    qed
  qed
  then show "latch_inv s" and "no_codec s" and "settled s \<or> live s" by simp_all
qed

section \<open>Steps of a run\<close>

lemma getArguments_ok:
  assumes "command_refs_ok h c" and "list_all (filters_ok mfs h) (outputs c)"
  shows "\<exists>r h'. getArguments mfs c h = (Inr r, h') \<and> h' ! r = spec_arguments mfs c h"
  using getArguments_spec[OF assms] by blast

text \<open>A command whose preparation and spawn succeed, without niceness and without an output stream.\<close>

lemma run_spawned:
  assumes op: "outputPresent c"
    and chk: "check_flvmeta (outputs c) = (outs, warns, found)"
    and flv: "(if found then getFlvtoolPath env (cache w) else (Inr [], cache w)) = (Inr tool, c1)"
    and refs: "command_refs_ok (arrays w) (command.truncate (c\<lparr>outputs := outs\<rparr>))"
    and fs: "list_all (filters_ok (makeFilterStrings u) (arrays w)) outs"
    and path: "getMencoderPath env c1 = (Inr p, c2)" and p: "p \<noteq> []"
    and nice: "opt_niceness c = 0"
    and os: "outputStream c = None"
  shows "\<exists>s sp. run env u c pl cl w = Began s \<and> crashed s = None \<and> \<not> ended s \<and> live s
           \<and> sup s = Some sp \<and> awaiting_exit s
           \<and> rs_outputs s = outs \<and> cache (rs_world s) = c2
           \<and> length (procs (rs_world s)) = Suc (length (procs w))
           \<and> terminal_events (emitted s) = [] \<and> filter is_codecData (emitted s) = []
           \<and> run_stdout s = Text [] \<and> run_stderr s = [] \<and> \<not> codecDataSent s
           \<and> \<not> flv_live s \<and> \<not> output_wired s
           \<and> input_wired s = (inputStream c \<noteq> None)
           \<and> timer s = (if truthy_timeout (opt_timeout c) then opt_timeout c else None)
           \<and> progress_listeners s = pl \<and> codecData_listeners s = cl"
proof -
  let ?c = "command.truncate (c\<lparr>outputs := outs\<rparr>)"
  have "outputs ?c = outs" by (simp add: command.truncate_def)
  with fs have "list_all (filters_ok (makeFilterStrings u) (arrays w)) (outputs ?c)" by simp
  from getArguments_ok[OF refs this]
  obtain r h' where g: "getArguments (makeFilterStrings u) ?c (arrays w) = (Inr r, h')" by blast
  have pr: "prepare env u c w = (Inr r, outs, warns, w\<lparr>cache := c1, arrays := h'\<rparr>)"
    using chk flv g by (simp add: prepare_def)
  have sm: "spawnMencoder env r \<lparr>niceness = Some (opt_niceness c), captureStdout = False,
                captureStderr = False\<rparr> (w\<lparr>cache := c1, arrays := h'\<rparr>) =
        ([ProcessCB (length (procs w))],
         Some (sup_init \<lparr>niceness = Some (opt_niceness c), captureStdout = False, captureStderr = False\<rparr>),
         w\<lparr>cache := c2, arrays := h', procs := procs w @ [\<lparr>sp_command = p, sp_args = h' ! r\<rparr>]\<rparr>)"
    using path p nice by (simp add: spawnMencoder_def apply_niceness_def Let_def)
  show ?thesis
    using op pr sm os
    by (simp add: run_def Let_def processCB_def fresh_run_def live_def terminal_events_def
        awaiting_exit_def sup_init_def)
qed

lemma exit_step:
  assumes "awaiting_exit s"
  shows "\<exists>sp'. run_step env u (Proc (ProcExit code signal)) s =
           (let s1 = run_endCB env u (exit_err code signal) (s\<lparr>sup := Some sp'\<rparr>) in s1)"
proof -
  from assms obtain sp where sp: "sup s = Some sp" "exitError sp = None"
    by (auto simp: awaiting_exit_def split: option.splits)
  from assms sp have "\<exists>sp'. sup_handle (sup_options s) (ProcExit code signal) sp =
      (sp', [EndCB (exit_err code signal) (sup_stdout sp') (sup_stderr sp')])"
    by (auto simp: awaiting_exit_def handleExit_def Let_def split: option.splits)
  then obtain sp' where
    h: "sup_handle (sup_options s) (ProcExit code signal) sp =
      (sp', [EndCB (exit_err code signal) (sup_stdout sp') (sup_stderr sp')])" by blast
  from assms have "crashed s = None" by (simp add: awaiting_exit_def)
  with sp h have "run_step env u (Proc (ProcExit code signal)) s =
     run_endCB env u (exit_err code signal) (s\<lparr>sup := Some sp'\<rparr>)"
    by (simp add: run_step_def on_proc_def Let_def del: sup_handle.simps)
  then show ?thesis by auto
qed

lemma endCB_success_plain:
  "\<not> truthy_err err \<Longrightarrow> filter flvmeta (rs_outputs s) = [] \<Longrightarrow>
   run_endCB env u err s = emitEnd None (run_stdout s) (Text (run_stderr s)) (s\<lparr>running_proc := None\<rparr>)"
  by (simp add: run_endCB_def Let_def)

lemma endCB_success_flv:
  "\<not> truthy_err err \<Longrightarrow> filter flvmeta (rs_outputs s) \<noteq> [] \<Longrightarrow>
   flvtoolPath (cache (rs_world s)) = Some tool \<Longrightarrow>
   run_endCB env u err s =
     s\<lparr>running_proc := None,
       rs_world := (rs_world s)
          \<lparr>cache := cache (rs_world s),
           procs := procs (rs_world s) @
             map (\<lambda>out. \<lparr>sp_command = tool,
                          sp_args = [Str ''-U'', Str (target_string (out_target out))]\<rparr>)
               (filter flvmeta (rs_outputs s))\<rparr>,
       flv_tool := tool,
       flv_targets := map (\<lambda>out. target_string (out_target out)) (filter flvmeta (rs_outputs s)),
       flv_completed := 0, flv_live := True\<rparr>"
  by (simp add: run_endCB_def Let_def getFlvtoolPath_def)


lemma flv_success_step:
  assumes "crashed s = None" and "flv_success (length (flv_targets s)) ev"
  shows "run_step env u ev s = flv_done None s"
  using assms by (cases ev) (simp_all add: run_step_def)

lemma flv_failure_step:
  assumes "crashed s = None" and "flv_failure (length (flv_targets s)) ev"
  shows "run_step env u ev s = flv_done (Some (flv_failure_error (flv_tool s) (flv_targets s) ev)) s"
  using assms by (cases ev) (auto simp: run_step_def)

lemma flv_failure_error_truthy: "flv_failure n ev \<Longrightarrow> truthy_err (Some (flv_failure_error tool tg ev))"
  by (cases ev)
    (simp_all add: truthy_err_def flv_exit_error_def flv_spawn_error_def)

lemma flv_successes:
  assumes "crashed s = None" and "flv_live s"
    and "list_all (flv_success (length (flv_targets s))) rs"
    and "flv_completed s + length rs < length (flv_targets s)"
  shows "run_steps env u rs s = s\<lparr>flv_completed := flv_completed s + length rs\<rparr>"
  using assms
proof (induction rs arbitrary: s)
  case Nil
  then show ?case by simp
next
  case (Cons ev rs)
  let ?s1 = "s\<lparr>flv_completed := Suc (flv_completed s)\<rparr>"
  from Cons.prems have ev: "flv_success (length (flv_targets s)) ev" by simp
  have step: "run_step env u ev s = ?s1"
    using flv_success_step[OF Cons.prems(1) ev] Cons.prems(4)
    by (simp add: flv_done_def Let_def truthy_err_def)
  have "run_steps env u rs ?s1 = ?s1\<lparr>flv_completed := flv_completed ?s1 + length rs\<rparr>"
    using Cons.prems by (intro Cons.IH) simp_all
  with step show ?case by simp
qed

lemma run_steps_append:
  "run_steps env u (xs @ ys) s = run_steps env u ys (run_steps env u xs s)"
  by (induction xs arbitrary: s) simp_all

lemma flv_all_succeed:
  assumes c: "crashed s = None" and l: "flv_live s" and e: "\<not> ended s"
    and rs: "list_all (flv_success (length (flv_targets s))) rs"
    and n: "flv_completed s + length rs = length (flv_targets s)" and ne: "rs \<noteq> []"
  shows "emitted (run_steps env u rs s) = emitted s @ [EndEv (run_stdout s) (Text (run_stderr s))]"
    and "ended (run_steps env u rs s)"
proof -
  from ne obtain rs' ev where sp: "rs = rs' @ [ev]" by (cases rs rule: rev_cases) auto
  from rs sp have rs': "list_all (flv_success (length (flv_targets s))) rs'"
    and ev: "flv_success (length (flv_targets s)) ev" by simp_all
  let ?s1 = "s\<lparr>flv_completed := flv_completed s + length rs'\<rparr>"
  from n sp have lt: "flv_completed s + length rs' < length (flv_targets s)" by simp
  have s1: "run_steps env u rs' s = ?s1" using c l rs' lt by (rule flv_successes)
  have "run_step env u ev ?s1 = flv_done None ?s1"
    using c ev by (intro flv_success_step) simp_all
  with s1 sp have r: "run_steps env u rs s = flv_done None ?s1" by (simp add: run_steps_append)
  from n sp l e show "emitted (run_steps env u rs s) = emitted s @ [EndEv (run_stdout s) (Text (run_stderr s))]"
    and "ended (run_steps env u rs s)"
    unfolding r by (simp_all add: flv_done_def Let_def truthy_err_def emitEnd_def)
qed

lemma flv_first_failure:
  assumes c: "crashed s = None" and l: "flv_live s" and e: "\<not> ended s"
    and rs: "list_all (flv_success (length (flv_targets s))) rs"
    and n: "flv_completed s + length rs < length (flv_targets s)"
    and f: "flv_failure (length (flv_targets s)) f"
  shows "emitted (run_steps env u (rs @ [f]) s) =
           emitted s @ [ErrorEv (flv_failure_error (flv_tool s) (flv_targets s) f) Undefined Undefined]"
    and "ended (run_steps env u (rs @ [f]) s)"
proof -
  let ?s1 = "s\<lparr>flv_completed := flv_completed s + length rs\<rparr>"
  have s1: "run_steps env u rs s = ?s1" using c l rs n by (rule flv_successes)
  have "run_step env u f ?s1 = flv_done (Some (flv_failure_error (flv_tool ?s1) (flv_targets ?s1) f)) ?s1"
    using c f by (intro flv_failure_step) simp_all
  with s1 have r: "run_steps env u (rs @ [f]) s =
      flv_done (Some (flv_failure_error (flv_tool s) (flv_targets s) f)) ?s1"
    by (simp add: run_steps_append)
  from l e flv_failure_error_truthy[OF f, of "flv_tool s" "flv_targets s"]
  show "emitted (run_steps env u (rs @ [f]) s) =
           emitted s @ [ErrorEv (flv_failure_error (flv_tool s) (flv_targets s) f) Undefined Undefined]"
    and "ended (run_steps env u (rs @ [f]) s)"
    unfolding r by (simp_all add: flv_done_def emitEnd_def)
qed

lemma emitEnd_frozen: "frozen T s \<Longrightarrow> frozen T (emitEnd err out errout s)"
  by (simp add: frozen_def emitEnd_def)

lemma run_endCB_frozen: "frozen T s \<Longrightarrow> frozen T (run_endCB env u err s)"
  by (auto simp: run_endCB_def Let_def frozen_def emitEnd_def
      split: option.splits sum.splits prod.splits)

lemma flv_done_frozen: "frozen T s \<Longrightarrow> frozen T (flv_done err s)"
  by (auto simp: flv_done_def Let_def frozen_def emitEnd_def)

lemma end_calls_frozen: "frozen T s \<Longrightarrow> frozen T (end_calls env u calls s)"
  by (induction env u calls s rule: end_calls.induct) (simp_all add: run_endCB_frozen)

lemma on_stdout_data_frozen: "frozen T s \<Longrightarrow> frozen T (on_stdout_data u d s)"
  by (auto simp: on_stdout_data_def Let_def frozen_def terminal_events_def)

lemma on_stderr_data_frozen: "frozen T s \<Longrightarrow> frozen T (on_stderr_data u d s)"
  by (auto simp: on_stderr_data_def extractCodecData_def Let_def frozen_def terminal_events_def
      split: option.splits)

lemma on_proc_frozen: "frozen T s \<Longrightarrow> frozen T (on_proc env u e s)"
  by (rule on_proc_preserves[where P = "frozen T"])
    (simp_all add: end_calls_frozen on_stdout_data_frozen on_stderr_data_frozen, simp add: frozen_def)

lemma frozen_update:
  "frozen T (kill_proc s) = frozen T s"
  "frozen T (s\<lparr>rs_log := l\<rparr>) = frozen T s"
  "frozen T (s\<lparr>kill_timers := k\<rparr>) = frozen T s"
  "frozen T (s\<lparr>progress_listeners := k\<rparr>) = frozen T s"
  "frozen T (s\<lparr>codecData_listeners := k\<rparr>) = frozen T s"
  "frozen T (s\<lparr>duration := i\<rparr>) = frozen T s"
  by (simp_all add: frozen_def kill_proc_def)

lemma run_step_frozen: "frozen T s \<Longrightarrow> frozen T (run_step env u ev s)"
  by (cases ev)
    (auto simp: run_step_def frozen_update
      intro!: on_proc_frozen flv_done_frozen emitEnd_frozen split: option.splits)

lemma run_steps_frozen: "frozen T s \<Longrightarrow> frozen T (run_steps env u evs s)"
  by (induction evs arbitrary: s) (simp_all add: run_step_frozen)

lemma ended_terminal_fixed:
  "ended s \<Longrightarrow> terminal_events (emitted (run_steps env u evs s)) = terminal_events (emitted s)"
  using run_steps_frozen[of "terminal_events (emitted s)" s env u evs] by (simp add: frozen_def)

lemma found_mencoder:
  "getMencoderPath found_env empty_cache =
     (Inr ''/usr/bin/mencoder'', empty_cache\<lparr>mencoderPath := Some ''/usr/bin/mencoder''\<rparr>)"
  by (simp add: getMencoderPath_def or_which_def env_path_def found_env_def empty_cache_def)

lemma file_command_spawned:
  "\<exists>s sp. run found_env sample_utils file_command pl cl tiny_world = Began s \<and> crashed s = None \<and> \<not> ended s \<and> live s
           \<and> sup s = Some sp \<and> awaiting_exit s
           \<and> rs_outputs s = [file_output ''a.avi'' False]
           \<and> cache (rs_world s) = empty_cache\<lparr>mencoderPath := Some ''/usr/bin/mencoder''\<rparr>
           \<and> length (procs (rs_world s)) = Suc (length (procs tiny_world))
           \<and> terminal_events (emitted s) = [] \<and> filter is_codecData (emitted s) = []
           \<and> run_stdout s = Text [] \<and> run_stderr s = [] \<and> \<not> codecDataSent s
           \<and> \<not> flv_live s \<and> \<not> output_wired s
           \<and> input_wired s = (inputStream file_command \<noteq> None)
           \<and> timer s = (if truthy_timeout (opt_timeout file_command) then opt_timeout file_command else None)
           \<and> progress_listeners s = pl \<and> codecData_listeners s = cl"
proof (rule run_spawned[where tool = "[]" and p = "''/usr/bin/mencoder''" and warns = "[]"
      and found = False and ?c1.0 = empty_cache])
  show "getMencoderPath found_env empty_cache =
     (Inr ''/usr/bin/mencoder'', empty_cache\<lparr>mencoderPath := Some ''/usr/bin/mencoder''\<rparr>)"
    by (rule found_mencoder)
qed (simp_all add: file_command_def file_output_def outputPresent_def outputStream_def
      command_refs_ok_def input_refs_ok_def output_refs_ok_def filters_ok_def sample_utils_def
      sample_mfs_def tiny_world_def tiny_heap_def command.truncate_def)





lemma after_events_latch:
  "after_events env u evs (run env u c pl cl w) = Began s \<Longrightarrow> latch_inv s \<and> codec_inv s"
proof -
  assume a: "after_events env u evs (run env u c pl cl w) = Began s"
  then obtain s0 where r: "run env u c pl cl w = Began s0" and s: "s = run_steps env u evs s0"
    by (cases "run env u c pl cl w") auto
  from run_began[OF r] have "latch_inv s0" "codec_inv s0" by (simp_all add: no_codec_inv)
  with s show ?thesis by (simp add: run_steps_latch run_steps_codec)
qed


lemma stderr_latched:
  "codecDataSent s \<Longrightarrow>
   emitted (run_step env u (Proc (StderrData d)) s) = emitted s
   \<and> codecDataSent (run_step env u (Proc (StderrData d)) s)"
  by (simp add: run_step_def on_proc_def on_stderr_data_def Let_def split: option.splits)

lemma stderr_banner:
  "\<not> codecDataSent s \<Longrightarrow> crashed s = None \<Longrightarrow> sup s \<noteq> None \<Longrightarrow>
   codecData_listeners s \<noteq> 0 \<Longrightarrow> codecBanner u (run_stderr s @ d) = Some b \<Longrightarrow>
   emitted (run_step env u (Proc (StderrData d)) s) = emitted s @ [CodecData b]
   \<and> codecDataSent (run_step env u (Proc (StderrData d)) s)"
  by (auto simp: run_step_def on_proc_def on_stderr_data_def extractCodecData_def Let_def
      split: option.splits)

lemma found_flvtool:
  "getFlvtoolPath found_env empty_cache =
     (Inr ''/usr/bin/flvmeta'', empty_cache\<lparr>flvtoolPath := Some ''/usr/bin/flvmeta''\<rparr>)"
  by (simp add: getFlvtoolPath_def or_which_def env_path_def found_env_def empty_cache_def)

lemma found_mencoder':
  "getMencoderPath found_env (empty_cache\<lparr>flvtoolPath := Some ''/usr/bin/flvmeta''\<rparr>) =
     (Inr ''/usr/bin/mencoder'',
      empty_cache\<lparr>flvtoolPath := Some ''/usr/bin/flvmeta'', mencoderPath := Some ''/usr/bin/mencoder''\<rparr>)"
  by (simp add: getMencoderPath_def or_which_def env_path_def found_env_def empty_cache_def)

lemma flv_command_spawned:
  "\<exists>s sp. run found_env sample_utils flv_command pl cl tiny_world = Began s \<and> crashed s = None \<and> \<not> ended s \<and> live s
           \<and> sup s = Some sp \<and> awaiting_exit s
           \<and> rs_outputs s = [file_output ''a.flv'' True, file_output ''b.flv'' True]
           \<and> cache (rs_world s) =
               empty_cache\<lparr>flvtoolPath := Some ''/usr/bin/flvmeta'', mencoderPath := Some ''/usr/bin/mencoder''\<rparr>
           \<and> length (procs (rs_world s)) = Suc (length (procs tiny_world))
           \<and> terminal_events (emitted s) = [] \<and> filter is_codecData (emitted s) = []
           \<and> run_stdout s = Text [] \<and> run_stderr s = [] \<and> \<not> codecDataSent s
           \<and> \<not> flv_live s \<and> \<not> output_wired s
           \<and> input_wired s = (inputStream flv_command \<noteq> None)
           \<and> timer s = (if truthy_timeout (opt_timeout flv_command) then opt_timeout flv_command else None)
           \<and> progress_listeners s = pl \<and> codecData_listeners s = cl"
proof (rule run_spawned[where tool = "''/usr/bin/flvmeta''" and p = "''/usr/bin/mencoder''"
      and warns = "[]" and found = True
      and ?c1.0 = "empty_cache\<lparr>flvtoolPath := Some ''/usr/bin/flvmeta''\<rparr>"])
  show "getMencoderPath found_env (empty_cache\<lparr>flvtoolPath := Some ''/usr/bin/flvmeta''\<rparr>) =
     (Inr ''/usr/bin/mencoder'',
      empty_cache\<lparr>flvtoolPath := Some ''/usr/bin/flvmeta'', mencoderPath := Some ''/usr/bin/mencoder''\<rparr>)"
    by (rule found_mencoder')
  show "(if True then getFlvtoolPath found_env (cache tiny_world) else (Inr [], cache tiny_world)) =
     (Inr ''/usr/bin/flvmeta'', empty_cache\<lparr>flvtoolPath := Some ''/usr/bin/flvmeta''\<rparr>)"
    using found_flvtool by (simp add: tiny_world_def)
qed (simp_all add: flv_command_def file_output_def outputPresent_def outputStream_def
      command_refs_ok_def input_refs_ok_def output_refs_ok_def filters_ok_def sample_utils_def
      sample_mfs_def tiny_world_def tiny_heap_def command.truncate_def)

lemma exit_success_plain:
  assumes a: "awaiting_exit s" and e: "\<not> ended s" and x: "exit_err code signal = None"
    and f: "filter flvmeta (rs_outputs s) = []"
  shows "emitted (run_step env u (Proc (ProcExit code signal)) s) =
           emitted s @ [EndEv (run_stdout s) (Text (run_stderr s))]"
proof -
  from exit_step[OF a, of env u code signal] x obtain sp' where
    "run_step env u (Proc (ProcExit code signal)) s = run_endCB env u None (s\<lparr>sup := Some sp'\<rparr>)"
    by auto
  with e f show ?thesis
    by (simp add: endCB_success_plain truthy_err_def emitEnd_def)
qed

lemma exit_success_flv:
  assumes a: "awaiting_exit s" and x: "exit_err code signal = None"
    and f: "filter flvmeta (rs_outputs s) \<noteq> []"
    and t: "flvtoolPath (cache (rs_world s)) = Some tool"
  shows "\<exists>sp'. run_step env u (Proc (ProcExit code signal)) s =
     s\<lparr>sup := Some sp', running_proc := None,
       rs_world := (rs_world s)
          \<lparr>cache := cache (rs_world s),
           procs := procs (rs_world s) @
             map (\<lambda>out. \<lparr>sp_command = tool,
                          sp_args = [Str ''-U'', Str (target_string (out_target out))]\<rparr>)
               (filter flvmeta (rs_outputs s))\<rparr>,
       flv_tool := tool,
       flv_targets := map (\<lambda>out. target_string (out_target out)) (filter flvmeta (rs_outputs s)),
       flv_completed := 0, flv_live := True\<rparr>"
proof -
  from exit_step[OF a, of env u code signal] x obtain sp' where
    "run_step env u (Proc (ProcExit code signal)) s = run_endCB env u None (s\<lparr>sup := Some sp'\<rparr>)"
    by auto
  with f t show ?thesis
    by (intro exI[of _ sp']) (simp add: endCB_success_flv[where tool = tool] truthy_err_def)
qed

lemma exit_success_flv_state:
  assumes a: "awaiting_exit s" and e: "\<not> ended s" and x: "exit_err code signal = None"
    and f: "filter flvmeta (rs_outputs s) \<noteq> []"
    and t: "flvtoolPath (cache (rs_world s)) = Some tool"
    and s1: "s1 = run_step env u (Proc (ProcExit code signal)) s"
  shows "crashed s1 = None" and "flv_live s1" and "\<not> ended s1"
    and "flv_targets s1 = map (\<lambda>out. target_string (out_target out)) (filter flvmeta (rs_outputs s))"
    and "flv_completed s1 = 0" and "flv_tool s1 = tool" and "emitted s1 = emitted s"
    and "run_stdout s1 = run_stdout s" and "run_stderr s1 = run_stderr s"
    and "procs (rs_world s1) = procs (rs_world s) @
             map (\<lambda>out. \<lparr>sp_command = tool,
                          sp_args = [Str ''-U'', Str (target_string (out_target out))]\<rparr>)
               (filter flvmeta (rs_outputs s))"
proof -
  from a have c: "crashed s = None" by (simp add: awaiting_exit_def)
  from exit_success_flv[OF a x f t, of env u] obtain sp' where
    r: "s1 = s\<lparr>sup := Some sp', running_proc := None,
       rs_world := (rs_world s)
          \<lparr>cache := cache (rs_world s),
           procs := procs (rs_world s) @
             map (\<lambda>out. \<lparr>sp_command = tool,
                          sp_args = [Str ''-U'', Str (target_string (out_target out))]\<rparr>)
               (filter flvmeta (rs_outputs s))\<rparr>,
       flv_tool := tool,
       flv_targets := map (\<lambda>out. target_string (out_target out)) (filter flvmeta (rs_outputs s)),
       flv_completed := 0, flv_live := True\<rparr>"
    unfolding s1 by blast
  from c e show "crashed s1 = None" and "flv_live s1" and "\<not> ended s1"
    and "flv_targets s1 = map (\<lambda>out. target_string (out_target out)) (filter flvmeta (rs_outputs s))"
    and "flv_completed s1 = 0" and "flv_tool s1 = tool" and "emitted s1 = emitted s"
    and "run_stdout s1 = run_stdout s" and "run_stderr s1 = run_stderr s"
    and "procs (rs_world s1) = procs (rs_world s) @
             map (\<lambda>out. \<lparr>sp_command = tool,
                          sp_args = [Str ''-U'', Str (target_string (out_target out))]\<rparr>)
               (filter flvmeta (rs_outputs s))"
    by (simp_all add: r)
qed

lemma flv_done_world: "rs_world (flv_done err s) = rs_world s"
  by (simp add: flv_done_def Let_def emitEnd_def)

section \<open>A command without output\<close>

text \<open>
  C4. When no output of the command has a target, \<open>run\<close> throws the error
  \<open>No output specified\<close> at once: nothing is prepared, no process is spawned, no event is
  emitted, and no later event finds a handler of this run.
\<close>

theorem run_without_output_throws:
  assumes "list_all (\<lambda>out. out_target out = None) (outputs c)"
  shows "run env u c pl cl w = Threw (Error ''No output specified'') w
       \<and> after_events env u evs (run env u c pl cl w) = Threw (Error ''No output specified'') w
       \<and> procs (world_of (after_events env u evs (run env u c pl cl w))) = procs w
       \<and> events_of (after_events env u evs (run env u c pl cl w)) = []"
proof -
  from assms have "\<not> outputPresent c"
    by (simp add: outputPresent_def list_ex_iff list_all_iff)
  then have "run env u c pl cl w = Threw (Error ''No output specified'') w"
    by (simp add: run_def)
  then show ?thesis by simp
qed

theorem run_without_output_throws_witness:
  "list_all (\<lambda>out. out_target out = None) (outputs bare_command)
   \<and> run found_env sample_utils bare_command 0 0 tiny_world =
       Threw (Error ''No output specified'') tiny_world
   \<and> procs (world_of (after_events found_env sample_utils [Proc (ProcExit (Some 0) None)]
                        (run found_env sample_utils bare_command 0 0 tiny_world))) = []
   \<and> events_of (after_events found_env sample_utils [Proc (ProcExit (Some 0) None)]
                        (run found_env sample_utils bare_command 0 0 tiny_world)) = []"
proof -
  have a: "list_all (\<lambda>out. out_target out = None) (outputs bare_command)"
    by (simp add: bare_command_def bare_output_def)
  have p: "procs tiny_world = []" by (simp add: tiny_world_def)
  from run_without_output_throws [OF a, of found_env sample_utils 0 0 tiny_world
      "[Proc (ProcExit (Some 0) None)]"] a p
  show ?thesis by simp
qed

section \<open>The terminal event\<close>



section \<open>The codec banner\<close>

text \<open>
  C6. In every run at most one \<open>codecData\<close> event is emitted, however many stderr chunks
  contain the banner: once \<open>_codecDataSent\<close> is set, a stderr chunk is appended to the
  accumulated text and nothing is scanned or emitted for it. While the latch is unset
  and a listener exists, a chunk that completes the banner emits the event and sets the
  latch.
\<close>

theorem codecData_at_most_once:
  "length (filter is_codecData (events_of (after_events env u evs (run env u c pl cl w)))) \<le> 1
   \<and> (codecDataSent s \<longrightarrow>
        emitted (run_step env u (Proc (StderrData d)) s) = emitted s
        \<and> codecDataSent (run_step env u (Proc (StderrData d)) s))
   \<and> (\<not> codecDataSent s \<and> crashed s = None \<and> sup s \<noteq> None \<and> codecData_listeners s \<noteq> 0
        \<and> codecBanner u (run_stderr s @ d) = Some b \<longrightarrow>
        emitted (run_step env u (Proc (StderrData d)) s) = emitted s @ [CodecData b]
        \<and> codecDataSent (run_step env u (Proc (StderrData d)) s))"
proof -
  have "length (filter is_codecData (events_of (after_events env u evs (run env u c pl cl w)))) \<le> 1"
  proof (cases "after_events env u evs (run env u c pl cl w)")
    case (Threw e w')
    then show ?thesis by simp
  next
    case (Began s')
    from after_events_latch[OF this] Began show ?thesis by (simp add: codec_inv_def)
  qed
  with stderr_latched[of s env u d] stderr_banner[of s u d b env] show ?thesis by blast
qed

theorem codecData_at_most_once_witness:
  "filter is_codecData (events_of (after_events found_env sample_utils
      [Proc (StderrData ''VIDEO: a''), Proc (StderrData ''VIDEO: b'')]
      (run found_env sample_utils file_command 0 1 tiny_world))) = [CodecData ''h264'']
   \<and> length (filter is_codecData (events_of (after_events found_env sample_utils
      [Proc (StderrData ''VIDEO: a''), Proc (StderrData ''VIDEO: b'')]
      (run found_env sample_utils file_command 0 1 tiny_world)))) \<le> 1"
proof -
  let ?a = "Proc (StderrData ''VIDEO: a'')" and ?b = "Proc (StderrData ''VIDEO: b'')"
  from file_command_spawned[of 0 1] obtain s0 sp where
    r: "run found_env sample_utils file_command 0 1 tiny_world = Began s0"
    and c0: "crashed s0 = None" and sp: "sup s0 = Some sp"
    and k0: "filter is_codecData (emitted s0) = []"
    and se0: "run_stderr s0 = []" and n0: "\<not> codecDataSent s0"
    and l0: "codecData_listeners s0 = 1"
    by blast
  define s1 where "s1 = run_step found_env sample_utils ?a s0"
  define s2 where "s2 = run_step found_env sample_utils ?b s1"
  have b: "codecBanner sample_utils (run_stderr s0 @ ''VIDEO: a'') = Some ''h264''"
    by (simp add: se0 sample_utils_def)
  have nz: "codecData_listeners s0 \<noteq> 0" and sn: "sup s0 \<noteq> None" using l0 sp by simp_all
  note inst = codecData_at_most_once [of found_env sample_utils "[?a, ?b]" file_command 0 1 tiny_world]
  from inst [of s0 "''VIDEO: a''" "''h264''"] n0 c0 sn nz b
  have e1: "emitted s1 = emitted s0 @ [CodecData ''h264'']" and d1: "codecDataSent s1"
    by (simp_all add: s1_def)
  from inst [of s1 "''VIDEO: b''" "[]"] d1
  have e2: "emitted s2 = emitted s1" by (simp add: s2_def)
  have fin: "after_events found_env sample_utils [?a, ?b]
               (run found_env sample_utils file_command 0 1 tiny_world) = Began s2"
    using r by (simp add: s1_def s2_def)
  from fin e1 e2 k0 show ?thesis by simp
qed

section \<open>Rewriting the metadata\<close>

text \<open>
  C7, the claim as stated fails. Two outputs ask for the rewrite, the process exits with
  code 0 and both rewriters are spawned. The rewriter of the first output exits with
  code 1: \<open>error\<close> is emitted at once, while the rewriter of the second output has not
  reported anything. The runs are not all awaited before the terminal event.
\<close>

theorem error_before_all_rewrites_counterexample:
  "terminal_events (events_of (after_events found_env sample_utils
      [Proc (ProcExit (Some 0) None), FlvExit 0 (Some 1) None]
      (run found_env sample_utils flv_command 0 0 tiny_world))) =
     [ErrorEv (ErrStr ''Error: /usr/bin/flvmeta exited with code 1 when running on a.flv'')
        Undefined Undefined]
   \<and> drop 1 (procs (world_of (after_events found_env sample_utils
      [Proc (ProcExit (Some 0) None), FlvExit 0 (Some 1) None]
      (run found_env sample_utils flv_command 0 0 tiny_world)))) =
     [\<lparr>sp_command = ''/usr/bin/flvmeta'', sp_args = [Str ''-U'', Str ''a.flv'']\<rparr>,
      \<lparr>sp_command = ''/usr/bin/flvmeta'', sp_args = [Str ''-U'', Str ''b.flv'']\<rparr>]"
proof -
  let ?exit = "Proc (ProcExit (Some 0) None)" and ?f = "FlvExit 0 (Some 1) None"
  from flv_command_spawned[of 0 0] obtain s0 where
    r: "run found_env sample_utils flv_command 0 0 tiny_world = Began s0"
    and e0: "\<not> ended s0" and a0: "awaiting_exit s0"
    and o0: "rs_outputs s0 = [file_output ''a.flv'' True, file_output ''b.flv'' True]"
    and k0: "cache (rs_world s0) =
               empty_cache\<lparr>flvtoolPath := Some ''/usr/bin/flvmeta'', mencoderPath := Some ''/usr/bin/mencoder''\<rparr>"
    and p0: "length (procs (rs_world s0)) = Suc (length (procs tiny_world))"
    and t0: "terminal_events (emitted s0) = []"
    by blast
  define s1 where "s1 = run_step found_env sample_utils ?exit s0"
  have x: "exit_err (Some 0) None = None" by (simp add: exit_err_def truthy_str_def truthy_int_def)
  have fl: "filter flvmeta (rs_outputs s0) = [file_output ''a.flv'' True, file_output ''b.flv'' True]"
    by (simp add: o0 file_output_def)
  then have ne: "filter flvmeta (rs_outputs s0) \<noteq> []" by simp
  have tl: "flvtoolPath (cache (rs_world s0)) = Some ''/usr/bin/flvmeta''"
    by (simp add: k0 empty_cache_def)
  note st = exit_success_flv_state[OF a0 e0 x ne tl s1_def]
  have tg: "flv_targets s1 = [''a.flv'', ''b.flv'']"
    by (simp add: st(4) fl) (simp add: file_output_def target_string_def)
  have ff: "flv_failure (length (flv_targets s1)) ?f" by (simp add: tg)
  have one: "string_of_int 1 = ''1''"
    by (simp add: string_of_int_def string_of_nat.simps digit_char_def)
  have em: "emitted (run_steps found_env sample_utils ([] @ [?f]) s1) =
           emitted s1 @ [ErrorEv (flv_failure_error (flv_tool s1) (flv_targets s1) ?f) Undefined Undefined]"
    using st(1,2,3) ff by (intro flv_first_failure) (simp_all add: st(5) tg)
  have fe: "flv_failure_error (flv_tool s1) (flv_targets s1) ?f =
          ErrStr ''Error: /usr/bin/flvmeta exited with code 1 when running on a.flv''"
    by (simp add: st(6) tg flv_exit_error_def truthy_str_def one)
  have w: "rs_world (run_step found_env sample_utils ?f s1) = rs_world s1"
    using flv_failure_step[OF st(1) ff, of found_env sample_utils] by (simp add: flv_done_world)
  have pr: "drop 1 (procs (rs_world s1)) =
     [\<lparr>sp_command = ''/usr/bin/flvmeta'', sp_args = [Str ''-U'', Str ''a.flv'']\<rparr>,
      \<lparr>sp_command = ''/usr/bin/flvmeta'', sp_args = [Str ''-U'', Str ''b.flv'']\<rparr>]"
    using p0 by (simp add: st(10) fl tiny_world_def) (simp add: file_output_def target_string_def)
  have fin: "after_events found_env sample_utils [?exit, ?f]
               (run found_env sample_utils flv_command 0 0 tiny_world) =
             Began (run_step found_env sample_utils ?f s1)"
    by (simp add: r s1_def)
  from em fe have "terminal_events (emitted (run_step found_env sample_utils ?f s1)) =
      [ErrorEv (ErrStr ''Error: /usr/bin/flvmeta exited with code 1 when running on a.flv'')
        Undefined Undefined]"
    using t0 by (simp add: st(7) terminal_events_def)
  with fin w pr show ?thesis by simp
qed

text \<open>
  C7, amended. When the process exits without error and no terminal event has been
  emitted yet: if no output asks for the rewrite, \<open>end\<close> is emitted at once. Otherwise the
  rewriter is spawned once for each such output, in order, and no terminal event is
  emitted at that point. While fewer rewriters than were spawned have reported success,
  nothing is emitted; when as many successes as rewriters have been reported, \<open>end\<close> is
  emitted. The first failure reported (a rewriter that could not be run, or that exits
  with a signal or a code other than 0) emits \<open>error\<close> with that failure at once, without
  waiting for the remaining rewriters, and whatever is reported afterwards changes no
  terminal event.
\<close>

theorem rewrite_after_successful_exit:
  assumes a: "awaiting_exit s" and e: "\<not> ended s" and x: "exit_err code signal = None"
    and s1: "s1 = run_step env u (Proc (ProcExit code signal)) s"
    and fl: "flagged = filter flvmeta (rs_outputs s)"
  shows "(flagged = [] \<longrightarrow> emitted s1 = emitted s @ [EndEv (run_stdout s) (Text (run_stderr s))])
    \<and> (flagged \<noteq> [] \<and> flvtoolPath (cache (rs_world s)) = Some tool \<longrightarrow>
         procs (rs_world s1) = procs (rs_world s) @
             map (\<lambda>out. \<lparr>sp_command = tool,
                          sp_args = [Str ''-U'', Str (target_string (out_target out))]\<rparr>) flagged
         \<and> emitted s1 = emitted s
         \<and> (list_all (flv_success (length flagged)) rs \<and> length rs < length flagged \<longrightarrow>
               emitted (run_steps env u rs s1) = emitted s)
         \<and> (list_all (flv_success (length flagged)) rs \<and> length rs = length flagged \<longrightarrow>
               emitted (run_steps env u rs s1) =
                 emitted s @ [EndEv (run_stdout s) (Text (run_stderr s))])
         \<and> (list_all (flv_success (length flagged)) rs \<and> length rs < length flagged
              \<and> flv_failure (length flagged) f \<longrightarrow>
               emitted (run_steps env u (rs @ [f]) s1) =
                 emitted s @
                 [ErrorEv (flv_failure_error tool
                             (map (\<lambda>out. target_string (out_target out)) flagged) f)
                    Undefined Undefined]
               \<and> terminal_events (emitted (run_steps env u (rs @ f # rest) s1)) =
                   terminal_events (emitted (run_steps env u (rs @ [f]) s1))))"
proof (cases "flagged \<noteq> [] \<and> flvtoolPath (cache (rs_world s)) = Some tool")
  case False
  with exit_success_plain[OF a e x, of env u] fl s1 show ?thesis by auto
next
  case True
  then have False: "flagged \<noteq> []" and t: "flvtoolPath (cache (rs_world s)) = Some tool"
    by simp_all
  with fl have f: "filter flvmeta (rs_outputs s) \<noteq> []" by simp
  note st = exit_success_flv_state[OF a e x f t s1]
  have n: "length (flv_targets s1) = length flagged" by (simp add: st(4) fl)
  have A: "emitted (run_steps env u rs s1) = emitted s"
    if "list_all (flv_success (length flagged)) rs" "length rs < length flagged"
  proof -
    have "run_steps env u rs s1 = s1\<lparr>flv_completed := flv_completed s1 + length rs\<rparr>"
      using st(1,2) that by (intro flv_successes) (simp_all add: n st(5))
    then show ?thesis by (simp add: st(7))
  qed
  have B: "emitted (run_steps env u rs s1) = emitted s @ [EndEv (run_stdout s) (Text (run_stderr s))]"
    if "list_all (flv_success (length flagged)) rs" "length rs = length flagged"
  proof -
    from that False have ne: "rs \<noteq> []" by auto
    have "emitted (run_steps env u rs s1) = emitted s1 @ [EndEv (run_stdout s1) (Text (run_stderr s1))]"
      using st(1,2,3) that ne by (intro flv_all_succeed) (simp_all add: n st(5))
    then show ?thesis by (simp add: st)
  qed
  have C: "emitted (run_steps env u (rs @ [f]) s1) =
                 emitted s @
                 [ErrorEv (flv_failure_error tool
                             (map (\<lambda>out. target_string (out_target out)) flagged) f)
                    Undefined Undefined]
               \<and> terminal_events (emitted (run_steps env u (rs @ f # rest) s1)) =
                   terminal_events (emitted (run_steps env u (rs @ [f]) s1))"
    if "list_all (flv_success (length flagged)) rs" "length rs < length flagged"
      "flv_failure (length flagged) f"
  proof -
    have 1: "emitted (run_steps env u (rs @ [f]) s1) =
           emitted s1 @ [ErrorEv (flv_failure_error (flv_tool s1) (flv_targets s1) f) Undefined Undefined]"
      and 2: "ended (run_steps env u (rs @ [f]) s1)"
      using st(1,2,3) that by (intro flv_first_failure; simp add: n st(5))+
    have "run_steps env u (rs @ f # rest) s1 = run_steps env u rest (run_steps env u (rs @ [f]) s1)"
      using run_steps_append[of env u "rs @ [f]" rest s1] by simp
    with ended_terminal_fixed[OF 2, of env u rest] 1 show ?thesis by (simp add: st fl)
  qed
  from False A B C st(10) st(7) fl show ?thesis by blast
qed

theorem rewrite_after_successful_exit_witness:
  "terminal_events (events_of (after_events found_env sample_utils
      [Proc (ProcExit (Some 0) None), FlvExit 1 (Some 0) None, FlvExit 0 (Some 0) None]
      (run found_env sample_utils flv_command 0 0 tiny_world))) = [EndEv (Text []) (Text [])]
   \<and> terminal_events (events_of (after_events found_env sample_utils
      [Proc (ProcExit (Some 0) None), FlvExit 1 (Some 0) None]
      (run found_env sample_utils flv_command 0 0 tiny_world))) = []
   \<and> terminal_events (events_of (after_events found_env sample_utils
      [Proc (ProcExit (Some 0) None), FlvExit 1 (Some 0) None, FlvError 0 ''ENOENT'',
       FlvExit 0 (Some 0) None]
      (run found_env sample_utils flv_command 0 0 tiny_world))) =
      [ErrorEv (Error ''Error running /usr/bin/flvmeta on a.flv: ENOENT'') Undefined Undefined]
   \<and> terminal_events (events_of (after_events found_env sample_utils
      [Proc (ProcExit (Some 0) None)]
      (run found_env sample_utils file_command 0 0 tiny_world))) = [EndEv (Text []) (Text [])]"
proof -
  let ?exit = "Proc (ProcExit (Some 0) None)"
  let ?ok1 = "FlvExit 1 (Some 0) None" and ?ok0 = "FlvExit 0 (Some 0) None"
  let ?bad = "FlvError 0 ''ENOENT''"
  have x: "exit_err (Some 0) None = None" by (simp add: exit_err_def truthy_str_def truthy_int_def)
  from flv_command_spawned[of 0 0] obtain s0 where
    r: "run found_env sample_utils flv_command 0 0 tiny_world = Began s0"
    and e0: "\<not> ended s0" and a0: "awaiting_exit s0"
    and o0: "rs_outputs s0 = [file_output ''a.flv'' True, file_output ''b.flv'' True]"
    and k0: "cache (rs_world s0) =
               empty_cache\<lparr>flvtoolPath := Some ''/usr/bin/flvmeta'', mencoderPath := Some ''/usr/bin/mencoder''\<rparr>"
    and t0: "terminal_events (emitted s0) = []"
    and so0: "run_stdout s0 = Text []" and se0: "run_stderr s0 = []"
    by blast
  define s1 where "s1 = run_step found_env sample_utils ?exit s0"
  define flagged where "flagged = filter flvmeta (rs_outputs s0)"
  have fl: "flagged = [file_output ''a.flv'' True, file_output ''b.flv'' True]"
    by (simp add: flagged_def o0 file_output_def)
  have tg: "map (\<lambda>out. target_string (out_target out)) flagged = [''a.flv'', ''b.flv'']"
    by (simp add: fl file_output_def target_string_def)
  have tl: "flvtoolPath (cache (rs_world s0)) = Some ''/usr/bin/flvmeta''"
    by (simp add: k0 empty_cache_def)
  note inst = rewrite_after_successful_exit [where s = s0 and code = "Some 0" and signal = None
      and env = found_env and u = sample_utils and ?s1.0 = s1 and flagged = flagged
      and tool = "''/usr/bin/flvmeta''", OF a0 e0 x s1_def flagged_def]
  have ok2: "list_all (flv_success (length flagged)) [?ok1, ?ok0]"
    and ok1: "list_all (flv_success (length flagged)) [?ok1]"
    and bad: "flv_failure (length flagged) ?bad"
    by (simp_all add: fl truthy_str_def)
  from inst [of "[?ok1, ?ok0]"] ok2 fl tl
  have A: "emitted (run_steps found_env sample_utils [?ok1, ?ok0] s1) =
             emitted s0 @ [EndEv (Text []) (Text [])]"
    by (simp add: so0 se0)
  from inst [of "[?ok1]"] ok1 fl tl
  have B: "emitted (run_steps found_env sample_utils [?ok1] s1) = emitted s0" by simp
  from inst [of "[?ok1]" ?bad "[?ok0]"] ok1 bad fl tl
  have C: "terminal_events (emitted (run_steps found_env sample_utils [?ok1, ?bad, ?ok0] s1)) =
             terminal_events (emitted s0 @
               [ErrorEv (flv_failure_error ''/usr/bin/flvmeta'' [''a.flv'', ''b.flv''] ?bad)
                  Undefined Undefined])"
    by (simp add: tg file_output_def target_string_def)
  from file_command_spawned[of 0 0] obtain q0 where
    r': "run found_env sample_utils file_command 0 0 tiny_world = Began q0"
    and e0': "\<not> ended q0" and a0': "awaiting_exit q0"
    and o0': "rs_outputs q0 = [file_output ''a.avi'' False]"
    and k0': "cache (rs_world q0) = empty_cache\<lparr>mencoderPath := Some ''/usr/bin/mencoder''\<rparr>"
    and t0': "terminal_events (emitted q0) = []"
    and so0': "run_stdout q0 = Text []" and se0': "run_stderr q0 = []"
    by blast
  have none: "filter flvmeta (rs_outputs q0) = []" by (simp add: o0' file_output_def)
  have D: "emitted (run_step found_env sample_utils ?exit q0) = emitted q0 @ [EndEv (Text []) (Text [])]"
    using rewrite_after_successful_exit [where s = q0 and code = "Some 0" and signal = None
      and env = found_env and u = sample_utils, OF a0' e0' x refl refl] none
    by (simp add: so0' se0')
  from A B C D t0 t0' show ?thesis
    by (simp add: r r' s1_def terminal_events_def flv_spawn_error_def)
qed

end
